theory Spec2Isabelle
  imports Main "HOL-Library.AList"
begin

unbundle bit_operations_syntax

section \<open>The translator between the LifeSOS panel driver and MQTT\<close>

text \<open>
  A shallow embedding of \<^verbatim>\<open>lifesospy_mqtt/translator.py\<close>. Every method of the class
  \<^verbatim>\<open>Translator\<close> that is modelled keeps its name. What a method does to the outside
  world (a call of \<^verbatim>\<open>_publish\<close>, a logger call, a task created for a driver
  coroutine) is returned as a list of effects in program order; an exception that leaves
  a method is returned as a value next to the effects performed before it.
\<close>

subsection \<open>Enumerations\<close>

text \<open>
  Modelled from the spec: \<^verbatim>\<open>lifesospy_mqtt/enums.py\<close> (the enums \<^verbatim>\<open>OnOff\<close> and
  \<^verbatim>\<open>OpenClosed\<close>) is not among the sources. Their members, the text they publish as
  (\<open>on\<close>, \<open>off\<close>, \<open>open\<close>, \<open>closed\<close>), \<^verbatim>\<open>parse_value\<close> on a boolean and the
  truth of a member's value are taken from the specification.
\<close>

datatype OnOff = Off | On

datatype OpenClosed = Open | Closed

text \<open>
  The enums of the panel driver (package \<^verbatim>\<open>lifesospy\<close>). The members the translator
  names are constructors; every other member is kept by its integer value.
\<close>

datatype DeviceEventCode = Trigger | OtherDeviceEventCode int

datatype BaseUnitState =
  Disarm | Home | Away | Monitor | AwayExitDelay | AwayEntryDelay | OtherBaseUnitState int

datatype EventQualifier = Event | Restore | OtherEventQualifier int

datatype EventCategory = Alarm | OtherEventCategory int

datatype DeviceType =
    FloodDetector | FloodDetector2 | MedicalButton | AnalogSensor | AnalogSensor2
  | SmokeDetector | PressureSensor | PressureSensor2 | CODetector | CO2Sensor
  | CO2Sensor2 | GasDetector | DoorMagnet | VibrationSensor | PIRSensor
  | GlassBreakDetector | HumidSensor | HumidSensor2 | TempSensor | TempSensor2
  | LightSensor | LightDetector | ACCurrentMeter | ACCurrentMeter2 | ThreePhaseACMeter
  | OtherDeviceType int

datatype OperationMode = OperationMode int

datatype SwitchNumber = SwitchNumber nat

datatype datetime = Datetime int

subsection \<open>Values, exceptions and effects\<close>

text \<open>
  The values that reach \<^verbatim>\<open>_publish\<close> as \<^verbatim>\<open>message: Any\<close>. \<open>PObject\<close> is an object
  with an \<^verbatim>\<open>as_dict()\<close> method (the category record of a device), given by the items of
  that dict; \<open>PJsonDumps d\<close> is the text \<^verbatim>\<open>json.dumps(d)\<close> returns; \<open>PUnspecified\<close> is
  a value that neither the sources nor the specification determine.
\<close>

datatype pyval =
    PNone
  | PBool bool
  | PInt int
  | PStr string
  | POnOff OnOff
  | POpenClosed OpenClosed
  | PDeviceEventCode DeviceEventCode
  | PBaseUnitState BaseUnitState
  | PDeviceType DeviceType
  | PObject "(string \<times> pyval) list"
  | PJsonDumps "(string \<times> pyval) list"
  | PUnspecified

datatype exn =
    AttributeError | KeyError | TypeError | ValueError | UnicodeDecodeError
  | NotImplementedError | OtherException string

datatype st_args = ArgsNone | ArgsName string | ArgsSwitch SwitchNumber

datatype driver_call =
    async_set_operation_mode OperationMode
  | async_clear_status
  | async_set_datetime "datetime option"
  | async_set_switch_state st_args bool

datatype loglevel = DEBUG | WARNING | ERROR

text \<open>The messages the translator logs, one constructor for each logger call of the module.\<close>

datatype logmsg =
    SignalReceived
  | ExceptionWaitingForMessage
  | ExceptionProcessingMessage
  | DeviceTypeSkipped
  | CannotSetOperationMode
  | CannotSetSwitch
  | ExceptionInCallback

text \<open>
  \<open>Publish topic message retain\<close> is a call \<^verbatim>\<open>self._publish(topic, message, retain)\<close>;
  \<open>Log level m\<close> is a call of the logger at that level (the arguments of the message
  are not recorded); \<open>CreateTask c\<close> is \<^verbatim>\<open>self._loop.create_task(self._baseunit.c)\<close>.
\<close>

datatype effect =
    Publish string pyval bool
  | Log loglevel logmsg
  | CreateTask driver_call

type_synonym outcome = "effect list \<times> exn option"

definition returns :: "effect list \<Rightarrow> outcome" where
  "returns es = (es, None)"

definition raises :: "exn \<Rightarrow> outcome" where
  "raises e = ([], Some e)"

text \<open>Statement sequencing: the second statement runs only if the first one returned.\<close>

definition then_do :: "outcome \<Rightarrow> outcome \<Rightarrow> outcome" where
  "then_do a b = (case snd a of None \<Rightarrow> (fst a @ fst b, snd b) | Some e \<Rightarrow> a)"

fun for_each :: "('a \<Rightarrow> outcome) \<Rightarrow> 'a list \<Rightarrow> outcome" where
  "for_each f [] = returns []"
| "for_each f (x # xs) = then_do (f x) (for_each f xs)"

subsection \<open>Configuration\<close>

text \<open>
  \<^verbatim>\<open>lifesospy_mqtt/config.py\<close> is not among the sources; the records hold the attributes the
  translator reads. An optional string is truthy when it is present and not empty.
\<close>

record TranslatorDeviceConfig =
  topic :: "string option"
  ha_name :: "string option"
  auto_reset_interval :: "int option"

record TranslatorSwitchConfig =
  switch_topic :: "string option"
  switch_ha_name :: "string option"

record Config =
  baseunit :: string
  devices :: "nat \<Rightarrow> TranslatorDeviceConfig option"
  switches :: "(SwitchNumber \<times> TranslatorSwitchConfig) list"
  ha_discovery_prefix :: "string option"

definition truthy :: "string option \<Rightarrow> bool" where
  "truthy x = (case x of None \<Rightarrow> False | Some s \<Rightarrow> s \<noteq> [])"

text \<open>\<^verbatim>\<open>str.format\<close> of an optional string: \<^verbatim>\<open>None\<close> is rendered as \<open>None\<close>.\<close>

definition fmt :: "string option \<Rightarrow> string" where
  "fmt x = (case x of None \<Rightarrow> ''None'' | Some s \<Rightarrow> s)"

definition sub_topic :: "string \<Rightarrow> string \<Rightarrow> string" where
  "sub_topic parent name = parent @ ''/'' @ name"

definition AUTO_RESET_INTERVAL :: int where
  "AUTO_RESET_INTERVAL = 30"

definition TOPIC_CLEAR_STATUS :: string where
  "TOPIC_CLEAR_STATUS = ''clear_status''"

definition TOPIC_DATETIME :: string where
  "TOPIC_DATETIME = ''datetime''"

definition TOPIC_HASTATE :: string where
  "TOPIC_HASTATE = ''ha_state''"

definition TOPIC_SET :: string where
  "TOPIC_SET = ''set''"

text \<open>
  Modelled from the spec: \<^verbatim>\<open>OnOff.parse_value\<close> and \<^verbatim>\<open>OpenClosed.parse_value\<close> of
  \<^verbatim>\<open>lifesospy_mqtt/enums.py\<close>. The specification defines them on booleans (a boolean
  is published as on/off, an is-closed flag as closed/open); it says nothing of any
  other argument, where the result is left unspecified.
\<close>

definition OnOff_parse_value :: "pyval \<Rightarrow> pyval" where
  "OnOff_parse_value v = (case v of PBool b \<Rightarrow> POnOff (if b then On else Off) | _ \<Rightarrow> PUnspecified)"

definition OpenClosed_parse_value :: "pyval \<Rightarrow> pyval" where
  "OpenClosed_parse_value v =
     (case v of PBool is_closed \<Rightarrow> POpenClosed (if is_closed then Closed else Open)
      | _ \<Rightarrow> PUnspecified)"

text \<open>
  Modelled from the spec: \<^verbatim>\<open>str\<close> of a member of \<^verbatim>\<open>OnOff\<close> and of \<^verbatim>\<open>OpenClosed\<close>
  (\<^verbatim>\<open>lifesospy_mqtt/enums.py\<close>), which the specification gives as the payloads \<open>on\<close>,
  \<open>off\<close>, \<open>open\<close> and \<open>closed\<close>.
\<close>

definition OnOff_str :: "OnOff \<Rightarrow> string" where
  "OnOff_str x = (case x of On \<Rightarrow> ''on'' | Off \<Rightarrow> ''off'')"

definition OpenClosed_str :: "OpenClosed \<Rightarrow> string" where
  "OpenClosed_str x = (case x of Open \<Rightarrow> ''open'' | Closed \<Rightarrow> ''closed'')"

text \<open>
  Modelled from the spec: the \<^verbatim>\<open>value\<close> of a member of \<^verbatim>\<open>OnOff\<close>
  (\<^verbatim>\<open>lifesospy_mqtt/enums.py\<close>). The specification has the on/off enum stand for a
  boolean state, so \<^verbatim>\<open>bool(state.value)\<close> is true for \<open>On\<close> and false for \<open>Off\<close>.
\<close>

definition OnOff_value :: "OnOff \<Rightarrow> int" where
  "OnOff_value x = (case x of Off \<Rightarrow> 0 | On \<Rightarrow> 1)"

text \<open>
  \<^verbatim>\<open>_async_publish\<close> turns the message into the payload: \<^verbatim>\<open>None\<close> becomes the empty
  string, anything else \<^verbatim>\<open>str(message)\<close>, encoded as UTF-8. The text is given where this
  module or the specification fixes it; for an integer and for the driver's own classes
  it is produced by code outside this module.
\<close>

definition async_publish_text :: "pyval \<Rightarrow> string option" where
  "async_publish_text message =
     (case message of
        PNone \<Rightarrow> Some []
      | PStr s \<Rightarrow> Some s
      | PBool b \<Rightarrow> Some (if b then ''True'' else ''False'')
      | POnOff x \<Rightarrow> Some (OnOff_str x)
      | POpenClosed x \<Rightarrow> Some (OpenClosed_str x)
      | _ \<Rightarrow> None)"

subsection \<open>The event loop's timers and the auto-reset registry\<close>

text \<open>
  \<^verbatim>\<open>loop.call_later(delay, callback, arg)\<close> creates a timer handle, due at the loop's
  time plus \<open>delay\<close>, and puts it into the loop's schedule; \<^verbatim>\<open>handle.cancel()\<close> marks
  it cancelled. Handles are objects: the model names each by a fresh number.
  The only callback ever scheduled is \<^verbatim>\<open>self._auto_reset\<close>, so a handle keeps its
  argument only. \<open>auto_reset_handles\<close> is the dict \<^verbatim>\<open>self._auto_reset_handles\<close>, from
  device id to handle.
\<close>

record TimerHandle =
  h_when :: int
  h_arg :: nat
  h_cancelled :: bool

record Translator =
  auto_reset_handles :: "(nat \<times> nat) list"
  loop_time :: int
  loop_scheduled :: "(nat \<times> TimerHandle) list"
  loop_next_handle :: nat

definition call_later :: "int \<Rightarrow> nat \<Rightarrow> Translator \<Rightarrow> nat \<times> Translator" where
  "call_later delay a s =
     (let h = loop_next_handle s in
      (h, s\<lparr>loop_scheduled := loop_scheduled s @
               [(h, \<lparr>h_when = loop_time s + delay, h_arg = a, h_cancelled = False\<rparr>)],
             loop_next_handle := Suc h\<rparr>))"

definition cancel_in :: "nat \<Rightarrow> (nat \<times> TimerHandle) list \<Rightarrow> (nat \<times> TimerHandle) list" where
  "cancel_in h sched = map (\<lambda>e. if fst e = h then (fst e, (snd e)\<lparr>h_cancelled := True\<rparr>) else e) sched"

definition handle_cancel :: "nat \<Rightarrow> Translator \<Rightarrow> Translator" where
  "handle_cancel h s = s\<lparr>loop_scheduled := cancel_in h (loop_scheduled s)\<rparr>"

text \<open>
  A device of the driver: \<open>is_special\<close> is \<^verbatim>\<open>isinstance(device, SpecialDevice)\<close>,
  \<open>dev_type\<close> is \<^verbatim>\<open>device.type\<close>, and \<open>attrs\<close> lists, for each key of
  \<^verbatim>\<open>device.as_dict()\<close> in order, the value \<^verbatim>\<open>getattr(device, key)\<close>.
\<close>

datatype callback = device_on_event_callback | device_on_properties_changed_callback

record Device =
  device_id :: nat
  is_special :: bool
  dev_type :: DeviceType
  attrs :: "(string \<times> pyval) list"
  on_event :: "callback option"
  on_properties_changed :: "callback option"

text \<open>\<^verbatim>\<open>device_config.auto_reset_interval or Translator.AUTO_RESET_INTERVAL\<close>\<close>

definition interval_or_default :: "int option \<Rightarrow> int" where
  "interval_or_default x =
     (case x of None \<Rightarrow> AUTO_RESET_INTERVAL
      | Some n \<Rightarrow> if n \<noteq> 0 then n else AUTO_RESET_INTERVAL)"

definition device_on_event ::
  "Config \<Rightarrow> Device \<Rightarrow> DeviceEventCode \<Rightarrow> Translator \<Rightarrow> effect list \<times> Translator" where
  "device_on_event cfg device event_code s =
     (case devices cfg (device_id device) of
        None \<Rightarrow> ([], s)
      | Some device_config \<Rightarrow>
          if \<not> truthy (topic device_config) then ([], s)
          else
            let es1 = [Publish (sub_topic (fmt (topic device_config)) ''event_code'')
                         (PDeviceEventCode event_code) False]
            in if event_code = Trigger then
                 let es2 = [Publish (fmt (topic device_config)) (OnOff_parse_value (PBool True)) True];
                     s1 = (case map_of (auto_reset_handles s) (device_id device) of
                             None \<Rightarrow> s
                           | Some handle \<Rightarrow> handle_cancel handle s);
                     (handle, s2) = call_later
                        (interval_or_default (auto_reset_interval device_config))
                        (device_id device) s1
                 in (es1 @ es2,
                     s2\<lparr>auto_reset_handles :=
                          AList.update (device_id device) handle (auto_reset_handles s2)\<rparr>)
               else (es1, s))"

definition auto_reset :: "Config \<Rightarrow> nat \<Rightarrow> Translator \<Rightarrow> outcome \<times> Translator" where
  "auto_reset cfg dev_id s =
     (let es = (case devices cfg dev_id of
                  None \<Rightarrow> []
                | Some device_config \<Rightarrow>
                    if truthy (topic device_config)
                    then [Publish (fmt (topic device_config)) (OnOff_parse_value (PBool False)) True]
                    else [])
      in case map_of (auto_reset_handles s) dev_id of
           None \<Rightarrow> ((es, Some KeyError), s)
         | Some h \<Rightarrow> ((es, None), s\<lparr>auto_reset_handles := AList.delete dev_id (auto_reset_handles s)\<rparr>))"

text \<open>
  The event loop runs a scheduled handle: a cancelled handle is dropped without a call;
  a handle that is due leaves the schedule and its callback \<^verbatim>\<open>_auto_reset\<close> is called
  (an exception of the callback is logged by the loop); a handle that is not yet due, or
  not in the schedule, is left alone.
\<close>

definition loop_run_handle :: "Config \<Rightarrow> nat \<Rightarrow> Translator \<Rightarrow> effect list \<times> Translator" where
  "loop_run_handle cfg h s =
     (case map_of (loop_scheduled s) h of
        None \<Rightarrow> ([], s)
      | Some t \<Rightarrow>
          if h_cancelled t then ([], s\<lparr>loop_scheduled := AList.delete h (loop_scheduled s)\<rparr>)
          else if h_when t \<le> loop_time s then
            (let (out, s') = auto_reset cfg (h_arg t)
                               (s\<lparr>loop_scheduled := AList.delete h (loop_scheduled s)\<rparr>)
             in (fst out @ (case snd out of None \<Rightarrow> []
                            | Some e \<Rightarrow> [Log ERROR ExceptionInCallback]), s'))
          else ([], s))"

text \<open>
  \<^verbatim>\<open>async_stop\<close>: every handle of the registry is cancelled and popped (the loop runs
  over a copy of the dict's items).
\<close>

definition async_stop :: "Translator \<Rightarrow> Translator" where
  "async_stop s =
     fold (\<lambda>item s'. (handle_cancel (snd item) s')
                       \<lparr>auto_reset_handles := AList.delete (fst item) (auto_reset_handles s')\<rparr>)
          (auto_reset_handles s) s"

text \<open>What can happen to the registry, one step at a time, and a run of such steps.\<close>

datatype step =
    DeviceEvent Device DeviceEventCode
  | Advance nat
  | RunHandle nat
  | Stop

fun do_step :: "Config \<Rightarrow> step \<Rightarrow> Translator \<Rightarrow> Translator" where
  "do_step cfg (DeviceEvent device event_code) s = snd (device_on_event cfg device event_code s)"
| "do_step cfg (Advance dt) s = s\<lparr>loop_time := loop_time s + int dt\<rparr>"
| "do_step cfg (RunHandle h) s = snd (loop_run_handle cfg h s)"
| "do_step cfg Stop s = async_stop s"

definition run :: "Config \<Rightarrow> step list \<Rightarrow> Translator \<Rightarrow> Translator" where
  "run cfg steps s = fold (do_step cfg) steps s"

definition init :: "int \<Rightarrow> Translator" where
  "init t0 = \<lparr>auto_reset_handles = [], loop_time = t0, loop_scheduled = [], loop_next_handle = 0\<rparr>"

text \<open>The live timers of a device: scheduled for it and not cancelled.\<close>

definition live_timers :: "nat \<Rightarrow> Translator \<Rightarrow> (nat \<times> TimerHandle) list" where
  "live_timers d s = filter (\<lambda>e. h_arg (snd e) = d \<and> \<not> h_cancelled (snd e)) (loop_scheduled s)"

subsection \<open>Names imported from the driver and from the package\<close>

text \<open>
  The translator reads these names from modules that are not among the sources: the
  property names and flag enums of the driver (\<^verbatim>\<open>lifesospy\<close>), the \<^verbatim>\<open>parse_name\<close>
  class methods of the enums, the equality of the driver's enum \<^verbatim>\<open>BaseUnitState\<close> and
  the package's \<^verbatim>\<open>PROJECT_NAME\<close>. They are parameters of the model. A flag enum is the
  list of its members as iteration yields them, each with its name and value.
  \<open>BaseUnitState_eq K value member\<close> is Python's \<^verbatim>\<open>value == BaseUnitState.member\<close>, which
  the enum's class decides: for an integer enum it holds of the member itself and also of
  an integer or a boolean with the member's value.
\<close>

record Env =
  BaseUnit_PROP_STATE :: string
  BaseUnit_PROP_IS_CONNECTED :: string
  BaseUnit_PROP_ROM_VERSION :: string
  BaseUnit_PROP_EXIT_DELAY :: string
  BaseUnit_PROP_ENTRY_DELAY :: string
  BaseUnit_PROP_OPERATION_MODE :: string
  Device_PROP_IS_CLOSED :: string
  Device_PROP_CATEGORY :: string
  Device_PROP_CHARACTERISTICS :: string
  Device_PROP_ENABLE_STATUS :: string
  Device_PROP_SWITCHES :: string
  Device_PROP_DEVICE_ID :: string
  Device_PROP_ZONE :: string
  Device_PROP_TYPE :: string
  Device_PROP_RSSI_DB :: string
  Device_PROP_RSSI_BARS :: string
  SpecialDevice_PROP_CURRENT_READING :: string
  SpecialDevice_PROP_SPECIAL_STATUS :: string
  SpecialDevice_PROP_HIGH_LIMIT :: string
  SpecialDevice_PROP_LOW_LIMIT :: string
  SpecialDevice_PROP_CONTROL_LIMIT_FIELDS_EXIST :: string
  SpecialDevice_PROP_CONTROL_HIGH_LIMIT :: string
  SpecialDevice_PROP_CONTROL_LOW_LIMIT :: string
  DCFlags :: "(string \<times> int) list"
  ESFlags :: "(string \<times> int) list"
  SwitchFlags :: "(string \<times> int) list"
  SSFlags :: "(string \<times> int) list"
  OperationMode_parse_name :: "string option \<Rightarrow> OperationMode option"
  OnOff_parse_name :: "string option \<Rightarrow> OnOff option"
  BaseUnitState_eq :: "pyval \<Rightarrow> BaseUnitState \<Rightarrow> bool"
  PROJECT_NAME :: string

subsection \<open>Base unit callbacks\<close>

text \<open>
  A Contact ID record of the driver. Each of the four attributes the translator reads is
  computed by the driver's class, which is not among the sources, and may raise instead
  of returning (a record whose category is outside the driver's enum does); reading an
  attribute twice gives the same result.
\<close>

record ContactID =
  cid_as_dict :: "exn + (string \<times> pyval) list"
  cid_event_code :: "exn + int option"
  cid_event_qualifier :: "exn + EventQualifier"
  cid_event_category :: "exn + EventCategory"

text \<open>
  \<^verbatim>\<open>contact_id.event_code\<close> is a number or \<^verbatim>\<open>None\<close>; \<^verbatim>\<open>if contact_id.event_code:\<close>
  holds for a number other than zero.
\<close>

definition code_truthy :: "int option \<Rightarrow> bool" where
  "code_truthy c = (case c of None \<Rightarrow> False | Some n \<Rightarrow> n \<noteq> 0)"

definition code_value :: "int option \<Rightarrow> pyval" where
  "code_value c = (case c of None \<Rightarrow> PNone | Some n \<Rightarrow> PInt n)"

text \<open>Reading an attribute that may raise, and going on with its value.\<close>

definition reading :: "exn + 'a \<Rightarrow> ('a \<Rightarrow> outcome) \<Rightarrow> outcome" where
  "reading r k = (case r of Inl e \<Rightarrow> raises e | Inr v \<Rightarrow> k v)"

definition baseunit_event :: "Config \<Rightarrow> ContactID \<Rightarrow> outcome" where
  "baseunit_event cfg contact_id =
     reading (cid_as_dict contact_id) (\<lambda>event_data.
       then_do (returns [Publish (baseunit cfg @ ''/event'') (PJsonDumps event_data) False])
      (then_do
         (reading (cid_event_code contact_id) (\<lambda>event_code.
            if code_truthy event_code then
              reading (cid_event_qualifier contact_id) (\<lambda>event_qualifier.
                if event_qualifier = Event then
                  returns [Publish (baseunit cfg @ ''/event_code'') (code_value event_code) False]
                else if event_qualifier = Restore then
                  returns [Publish (baseunit cfg @ ''/restore_code'') (code_value event_code) False]
                else returns [])
            else returns []))
         (reading (cid_event_qualifier contact_id) (\<lambda>event_qualifier.
            if event_qualifier = Event then
              reading (cid_event_category contact_id) (\<lambda>event_category.
                if event_category = Alarm then
                  returns [Publish (sub_topic (baseunit cfg) TOPIC_HASTATE) (PStr ''triggered'') True]
                else returns [])
            else returns []))))"

text \<open>
  \<^verbatim>\<open>value in {A, B}\<close> on a set of members of \<^verbatim>\<open>BaseUnitState\<close> holds when the value
  equals one of them.
\<close>

definition publish_baseunit_property :: "Env \<Rightarrow> Config \<Rightarrow> string \<Rightarrow> pyval \<Rightarrow> effect list" where
  "publish_baseunit_property K cfg name value =
     (let topic_parent = baseunit cfg in
      if name = BaseUnit_PROP_STATE K then
        Publish topic_parent value True #
        (let topic = sub_topic topic_parent TOPIC_HASTATE in
         if list_ex (BaseUnitState_eq K value) [Disarm, Monitor] then
           [Publish topic (PStr ''disarmed'') True]
         else if BaseUnitState_eq K value Home then
           [Publish topic (PStr ''armed_home'') True]
         else if BaseUnitState_eq K value Away then
           [Publish topic (PStr ''armed_away'') True]
         else if list_ex (BaseUnitState_eq K value) [AwayExitDelay, AwayEntryDelay] then
           [Publish topic (PStr ''pending'') True]
         else [])
      else if name \<in> {BaseUnit_PROP_IS_CONNECTED K, BaseUnit_PROP_ROM_VERSION K,
                       BaseUnit_PROP_EXIT_DELAY K, BaseUnit_PROP_ENTRY_DELAY K,
                       BaseUnit_PROP_OPERATION_MODE K} then
        [Publish (sub_topic topic_parent name) value True]
      else [])"

record PropertyChangedInfo =
  change_name :: string
  old_value :: pyval
  new_value :: pyval

definition baseunit_properties_changed ::
  "Env \<Rightarrow> Config \<Rightarrow> PropertyChangedInfo list \<Rightarrow> effect list" where
  "baseunit_properties_changed K cfg changes =
     concat (map (\<lambda>change. publish_baseunit_property K cfg (change_name change) (new_value change))
               changes)"

subsection \<open>Device properties\<close>

text \<open>
  \<^verbatim>\<open>value & item.value\<close>: defined on integers (a boolean counts as 0 or 1), a
  \<^verbatim>\<open>TypeError\<close> on anything else.
\<close>

definition py_and :: "pyval \<Rightarrow> int \<Rightarrow> exn + int" where
  "py_and value b =
     (case value of
        PInt v \<Rightarrow> Inr (v AND b)
      | PBool c \<Rightarrow> Inr ((if c then 1 else 0) AND b)
      | _ \<Rightarrow> Inl TypeError)"

definition sub_topic3 :: "string \<Rightarrow> string \<Rightarrow> string \<Rightarrow> string" where
  "sub_topic3 parent name item = parent @ ''/'' @ name @ ''/'' @ item"

text \<open>
  The loop over a flag enum, which \<^verbatim>\<open>_publish_device_property\<close> writes out once for
  each of the four flag properties:
  \<^verbatim>\<open>for item in iter(Flags): self._publish('{}/{}/{}'.format(topic_parent, name, item.name), bool(value & item.value), True)\<close>
\<close>

definition publish_flags :: "string \<Rightarrow> string \<Rightarrow> (string \<times> int) list \<Rightarrow> pyval \<Rightarrow> outcome" where
  "publish_flags topic_parent name flags value =
     for_each (\<lambda>item. case py_and value (snd item) of
                         Inl e \<Rightarrow> raises e
                       | Inr r \<Rightarrow> returns [Publish (sub_topic3 topic_parent name (fst item))
                                              (PBool (r \<noteq> 0)) True])
              flags"

definition publish_device_property ::
  "Env \<Rightarrow> string \<Rightarrow> Device \<Rightarrow> string \<Rightarrow> pyval \<Rightarrow> outcome" where
  "publish_device_property K topic_parent device name value =
     (if \<not> is_special device \<and> name = Device_PROP_IS_CLOSED K then
        (if dev_type device = DoorMagnet then
           returns [Publish topic_parent (OpenClosed_parse_value value) True]
         else returns [Publish topic_parent (POnOff Off) True])
      else if is_special device \<and> name = SpecialDevice_PROP_CURRENT_READING K then
        returns [Publish topic_parent value True]
      else if name = Device_PROP_CATEGORY K then
        (case value of
           PObject items \<Rightarrow>
             returns (concat (map (\<lambda>prop. if fst prop \<in> {''code'', ''description''}
                                           then [Publish (sub_topic3 topic_parent name (fst prop))
                                                   (snd prop) True]
                                           else []) items))
         | _ \<Rightarrow> raises AttributeError)
      else if name = Device_PROP_CHARACTERISTICS K then
        publish_flags topic_parent name (DCFlags K) value
      else if name = Device_PROP_ENABLE_STATUS K then
        publish_flags topic_parent name (ESFlags K) value
      else if name = Device_PROP_SWITCHES K then
        publish_flags topic_parent name (SwitchFlags K) value
      else if name = SpecialDevice_PROP_SPECIAL_STATUS K then
        publish_flags topic_parent name (SSFlags K) value
      else if name \<in> {Device_PROP_DEVICE_ID K, Device_PROP_ZONE K, Device_PROP_TYPE K,
                       Device_PROP_RSSI_DB K, Device_PROP_RSSI_BARS K,
                       SpecialDevice_PROP_HIGH_LIMIT K, SpecialDevice_PROP_LOW_LIMIT K,
                       SpecialDevice_PROP_CONTROL_LIMIT_FIELDS_EXIST K,
                       SpecialDevice_PROP_CONTROL_HIGH_LIMIT K,
                       SpecialDevice_PROP_CONTROL_LOW_LIMIT K} then
        returns [Publish (sub_topic topic_parent name) value True]
      else returns [])"

definition device_on_properties_changed ::
  "Env \<Rightarrow> Config \<Rightarrow> Device \<Rightarrow> PropertyChangedInfo list \<Rightarrow> outcome" where
  "device_on_properties_changed K cfg device changes =
     (case devices cfg (device_id device) of
        None \<Rightarrow> returns []
      | Some device_config \<Rightarrow>
          if truthy (topic device_config) then
            for_each (\<lambda>change. publish_device_property K (fmt (topic device_config)) device
                                  (change_name change) (new_value change)) changes
          else returns [])"

subsection \<open>Home Assistant discovery\<close>

definition HA_AVAILABILITY_TOPIC :: string where "HA_AVAILABILITY_TOPIC = ''availability_topic''"
definition HA_DEVICE_CLASS :: string where "HA_DEVICE_CLASS = ''device_class''"
definition HA_NAME :: string where "HA_NAME = ''name''"
definition HA_PAYLOAD_AVAILABLE :: string where "HA_PAYLOAD_AVAILABLE = ''payload_available''"
definition HA_PAYLOAD_NOT_AVAILABLE :: string where "HA_PAYLOAD_NOT_AVAILABLE = ''payload_not_available''"
definition HA_PAYLOAD_OFF :: string where "HA_PAYLOAD_OFF = ''payload_off''"
definition HA_PAYLOAD_ON :: string where "HA_PAYLOAD_ON = ''payload_on''"
definition HA_STATE_TOPIC :: string where "HA_STATE_TOPIC = ''state_topic''"
definition HA_UNIQUE_ID :: string where "HA_UNIQUE_ID = ''unique_id''"
definition HA_UNIT_OF_MEASUREMENT :: string where "HA_UNIT_OF_MEASUREMENT = ''unit_of_measurement''"

definition HA_DC_DOOR :: string where "HA_DC_DOOR = ''door''"
definition HA_DC_GAS :: string where "HA_DC_GAS = ''gas''"
definition HA_DC_HUMIDITY :: string where "HA_DC_HUMIDITY = ''humidity''"
definition HA_DC_ILLUMINANCE :: string where "HA_DC_ILLUMINANCE = ''illuminance''"
definition HA_DC_MOISTURE :: string where "HA_DC_MOISTURE = ''moisture''"
definition HA_DC_MOTION :: string where "HA_DC_MOTION = ''motion''"
definition HA_DC_SAFETY :: string where "HA_DC_SAFETY = ''safety''"
definition HA_DC_SMOKE :: string where "HA_DC_SMOKE = ''smoke''"
definition HA_DC_TEMPERATURE :: string where "HA_DC_TEMPERATURE = ''temperature''"
definition HA_DC_VIBRATION :: string where "HA_DC_VIBRATION = ''vibration''"
definition HA_DC_WINDOW :: string where "HA_DC_WINDOW = ''window''"

definition HA_PLATFORM_BINARY_SENSOR :: string where "HA_PLATFORM_BINARY_SENSOR = ''binary_sensor''"
definition HA_PLATFORM_SENSOR :: string where "HA_PLATFORM_SENSOR = ''sensor''"
definition HA_PLATFORM_SWITCH :: string where "HA_PLATFORM_SWITCH = ''switch''"

definition HA_UOM_CURRENT :: string where "HA_UOM_CURRENT = ''A''"
definition HA_UOM_HUMIDITY :: string where "HA_UOM_HUMIDITY = ''%''"
definition HA_UOM_ILLUMINANCE :: string where "HA_UOM_ILLUMINANCE = ''Lux''"

text \<open>The degree sign of \<^verbatim>\<open>HA_UOM_TEMPERATURE\<close> as its two UTF-8 bytes, then \<open>C\<close>.\<close>

definition HA_UOM_TEMPERATURE :: string where
  "HA_UOM_TEMPERATURE = [char_of (0xC2 :: nat), char_of (0xB0 :: nat), CHR ''C'']"

text \<open>The format \<^verbatim>\<open>{:06x}\<close> of a natural number: lower-case hexadecimal, padded with zeros
  to at least six digits.\<close>

definition hex_digit :: "nat \<Rightarrow> char" where
  "hex_digit n = ''0123456789abcdef'' ! n"

function format_x :: "nat \<Rightarrow> string" where
  "format_x n = (if n < 16 then [hex_digit n] else format_x (n div 16) @ [hex_digit (n mod 16)])"
  by pat_completeness auto
termination
  by (relation "measure id") auto

declare format_x.simps [simp del]

definition format_06x :: "nat \<Rightarrow> string" where
  "format_06x n = replicate (6 - length (format_x n)) (CHR ''0'') @ format_x n"

text \<open>The number that a string of lower-case hexadecimal digits denotes.\<close>

definition hex_digit_value :: "char \<Rightarrow> nat" where
  "hex_digit_value c = length (takeWhile (\<lambda>d. d \<noteq> c) ''0123456789abcdef'')"

definition hex_value :: "string \<Rightarrow> nat" where
  "hex_value s = foldl (\<lambda>a c. 16 * a + hex_digit_value c) 0 s"

definition opt_str :: "string option \<Rightarrow> pyval" where
  "opt_str x = (case x of None \<Rightarrow> PNone | Some s \<Rightarrow> PStr s)"

text \<open>\<^verbatim>\<open>message[key] = value\<close> on a dict that keeps insertion order.\<close>

definition dict_set :: "string \<Rightarrow> pyval \<Rightarrow> (string \<times> pyval) list \<Rightarrow> (string \<times> pyval) list" where
  "dict_set k v m = AList.update k v m"

text \<open>The publication that ends \<^verbatim>\<open>_publish_ha_device_config\<close> on every branch but the last.\<close>

definition publish_config :: "Config \<Rightarrow> string \<Rightarrow> string \<Rightarrow> (string \<times> pyval) list \<Rightarrow> outcome" where
  "publish_config cfg ha_platform unique_id message =
     returns [Publish (fmt (ha_discovery_prefix cfg) @ ''/'' @ ha_platform @ ''/'' @ unique_id @ ''/config'')
                (PJsonDumps message) True]"

definition on_off_payloads :: "(string \<times> pyval) list \<Rightarrow> (string \<times> pyval) list" where
  "on_off_payloads message =
     dict_set HA_PAYLOAD_OFF (PStr (OnOff_str Off)) (dict_set HA_PAYLOAD_ON (PStr (OnOff_str On)) message)"

definition publish_ha_device_config ::
  "Env \<Rightarrow> Config \<Rightarrow> Device \<Rightarrow> TranslatorDeviceConfig \<Rightarrow> outcome" where
  "publish_ha_device_config K cfg device device_config =
     (let unique_id = PROJECT_NAME K @ ''_'' @ format_06x (device_id device);
          message =
            [(HA_NAME, opt_str (ha_name device_config)),
             (HA_UNIQUE_ID, PStr unique_id),
             (HA_STATE_TOPIC, opt_str (topic device_config)),
             (HA_AVAILABILITY_TOPIC, PStr (sub_topic (baseunit cfg) (BaseUnit_PROP_IS_CONNECTED K))),
             (HA_PAYLOAD_AVAILABLE, PStr ''True''),
             (HA_PAYLOAD_NOT_AVAILABLE, PStr ''False'')]
      in
      if dev_type device \<in> {FloodDetector, FloodDetector2} then
        publish_config cfg HA_PLATFORM_BINARY_SENSOR unique_id
          (on_off_payloads (dict_set HA_DEVICE_CLASS (PStr HA_DC_MOISTURE) message))
      else if dev_type device \<in> {MedicalButton} then
        publish_config cfg HA_PLATFORM_BINARY_SENSOR unique_id
          (on_off_payloads (dict_set HA_DEVICE_CLASS (PStr HA_DC_SAFETY) message))
      else if dev_type device \<in> {AnalogSensor, AnalogSensor2} then
        publish_config cfg HA_PLATFORM_BINARY_SENSOR unique_id (on_off_payloads message)
      else if dev_type device \<in> {SmokeDetector} then
        publish_config cfg HA_PLATFORM_BINARY_SENSOR unique_id
          (on_off_payloads (dict_set HA_DEVICE_CLASS (PStr HA_DC_SMOKE) message))
      else if dev_type device \<in> {PressureSensor, PressureSensor2} then
        publish_config cfg HA_PLATFORM_BINARY_SENSOR unique_id
          (on_off_payloads (dict_set HA_DEVICE_CLASS (PStr HA_DC_MOTION) message))
      else if dev_type device \<in> {CODetector, CO2Sensor, CO2Sensor2, GasDetector} then
        publish_config cfg HA_PLATFORM_BINARY_SENSOR unique_id
          (on_off_payloads (dict_set HA_DEVICE_CLASS (PStr HA_DC_GAS) message))
      else if dev_type device \<in> {DoorMagnet} then
        publish_config cfg HA_PLATFORM_BINARY_SENSOR unique_id
          (dict_set HA_PAYLOAD_OFF (PStr (OpenClosed_str Closed))
             (dict_set HA_PAYLOAD_ON (PStr (OpenClosed_str Open))
                (dict_set HA_DEVICE_CLASS (PStr HA_DC_DOOR) message)))
      else if dev_type device \<in> {VibrationSensor} then
        publish_config cfg HA_PLATFORM_BINARY_SENSOR unique_id
          (on_off_payloads (dict_set HA_DEVICE_CLASS (PStr HA_DC_VIBRATION) message))
      else if dev_type device \<in> {PIRSensor} then
        publish_config cfg HA_PLATFORM_BINARY_SENSOR unique_id
          (on_off_payloads (dict_set HA_DEVICE_CLASS (PStr HA_DC_MOTION) message))
      else if dev_type device \<in> {GlassBreakDetector} then
        publish_config cfg HA_PLATFORM_BINARY_SENSOR unique_id
          (on_off_payloads (dict_set HA_DEVICE_CLASS (PStr HA_DC_WINDOW) message))
      else if dev_type device \<in> {HumidSensor, HumidSensor2} then
        publish_config cfg HA_PLATFORM_SENSOR unique_id
          (dict_set HA_UNIT_OF_MEASUREMENT (PStr HA_UOM_HUMIDITY)
             (dict_set HA_DEVICE_CLASS (PStr HA_DC_HUMIDITY) message))
      else if dev_type device \<in> {TempSensor, TempSensor2} then
        publish_config cfg HA_PLATFORM_SENSOR unique_id
          (dict_set HA_UNIT_OF_MEASUREMENT (PStr HA_UOM_TEMPERATURE)
             (dict_set HA_DEVICE_CLASS (PStr HA_DC_TEMPERATURE) message))
      else if dev_type device \<in> {LightSensor, LightDetector} then
        publish_config cfg HA_PLATFORM_SENSOR unique_id
          (dict_set HA_UNIT_OF_MEASUREMENT (PStr HA_UOM_ILLUMINANCE)
             (dict_set HA_DEVICE_CLASS (PStr HA_DC_ILLUMINANCE) message))
      else if dev_type device \<in> {ACCurrentMeter, ACCurrentMeter2, ThreePhaseACMeter} then
        publish_config cfg HA_PLATFORM_SENSOR unique_id
          (dict_set HA_UNIT_OF_MEASUREMENT (PStr HA_UOM_CURRENT) message)
      else returns [Log WARNING DeviceTypeSkipped])"

text \<open>
  \<^verbatim>\<open>_baseunit_device_added\<close> returns the device with its callbacks attached, next to the
  outcome. Reading \<^verbatim>\<open>device_config.ha_name\<close> when \<^verbatim>\<open>device_config\<close> is \<^verbatim>\<open>None\<close> is an
  \<^verbatim>\<open>AttributeError\<close>; the attribute is read only if the discovery prefix is truthy.
\<close>

definition baseunit_device_added :: "Env \<Rightarrow> Config \<Rightarrow> Device \<Rightarrow> Device \<times> outcome" where
  "baseunit_device_added K cfg device0 =
     (let device = device0\<lparr>on_event := Some device_on_event_callback,
                           on_properties_changed := Some device_on_properties_changed_callback\<rparr>;
          device_config = devices cfg (device_id device);
          initial =
            (case device_config of
               None \<Rightarrow> returns []
             | Some dc \<Rightarrow>
                 if truthy (topic dc) then
                   for_each (\<lambda>prop. publish_device_property K (fmt (topic dc)) device
                                       (fst prop) (snd prop)) (attrs device)
                 else returns []);
          discovery =
            (if truthy (ha_discovery_prefix cfg) then
               (case device_config of
                  None \<Rightarrow> raises AttributeError
                | Some dc \<Rightarrow>
                    if truthy (ha_name dc) then publish_ha_device_config K cfg device dc
                    else returns [])
             else returns [])
      in (device, then_do initial discovery))"

definition baseunit_device_deleted :: "Device \<Rightarrow> Device" where
  "baseunit_device_deleted device = device\<lparr>on_event := None, on_properties_changed := None\<rparr>"

subsection \<open>Inbound messages\<close>

text \<open>
  \<^verbatim>\<open>message.data\<close> is a byte string. \<^verbatim>\<open>message.data.decode()\<close> returns the text when the
  bytes are well-formed UTF-8 and raises \<^verbatim>\<open>UnicodeDecodeError\<close> otherwise; text is kept
  as its UTF-8 bytes.
\<close>

definition in_range :: "nat \<Rightarrow> nat \<Rightarrow> char \<Rightarrow> bool" where
  "in_range lo hi c \<longleftrightarrow> lo \<le> of_char c \<and> of_char c \<le> hi"

fun utf8_valid :: "string \<Rightarrow> bool" where
  "utf8_valid [] = True"
| "utf8_valid (c # cs) =
     (let b = (of_char c :: nat) in
      if b < 0x80 then utf8_valid cs
      else if 0xC2 \<le> b \<and> b \<le> 0xDF then
        (case cs of
           c1 # r \<Rightarrow> in_range 0x80 0xBF c1 \<and> utf8_valid r
         | _ \<Rightarrow> False)
      else if 0xE0 \<le> b \<and> b \<le> 0xEF then
        (case cs of
           c1 # c2 # r \<Rightarrow>
             in_range (if b = 0xE0 then 0xA0 else 0x80) (if b = 0xED then 0x9F else 0xBF) c1 \<and>
             in_range 0x80 0xBF c2 \<and> utf8_valid r
         | _ \<Rightarrow> False)
      else if 0xF0 \<le> b \<and> b \<le> 0xF4 then
        (case cs of
           c1 # c2 # c3 # r \<Rightarrow>
             in_range (if b = 0xF0 then 0x90 else 0x80) (if b = 0xF4 then 0x8F else 0xBF) c1 \<and>
             in_range 0x80 0xBF c2 \<and> in_range 0x80 0xBF c3 \<and> utf8_valid r
         | _ \<Rightarrow> False)
      else False)"

definition decode :: "string \<Rightarrow> exn + string" where
  "decode data = (if utf8_valid data then Inr data else Inl UnicodeDecodeError)"

text \<open>\<^verbatim>\<open>None if not message.data else message.data.decode()\<close>\<close>

definition decode_data :: "string \<Rightarrow> exn + string option" where
  "decode_data data =
     (if data = [] then Inr None
      else case decode data of Inl e \<Rightarrow> Inl e | Inr text \<Rightarrow> Inr (Some text))"

record ApplicationMessage =
  msg_topic :: string
  msg_data :: string

datatype handler =
    handler_on_message_clear_status
  | handler_on_message_set_datetime
  | handler_on_message_baseunit
  | handler_on_message_switch

record SubscribeTopic =
  st_topic :: string
  st_on_message :: handler
  st_args :: st_args

definition on_message_baseunit :: "Env \<Rightarrow> SubscribeTopic \<Rightarrow> ApplicationMessage \<Rightarrow> outcome" where
  "on_message_baseunit K subscribetopic message =
     (if st_args subscribetopic = ArgsName (BaseUnit_PROP_OPERATION_MODE K) then
        (case decode_data (msg_data message) of
           Inl e \<Rightarrow> raises e
         | Inr name \<Rightarrow>
             (case OperationMode_parse_name K name of
                None \<Rightarrow> returns [Log WARNING CannotSetOperationMode]
              | Some operation_mode \<Rightarrow>
                  returns [CreateTask (async_set_operation_mode operation_mode)]))
      else raises NotImplementedError)"

definition on_message_clear_status :: "Env \<Rightarrow> SubscribeTopic \<Rightarrow> ApplicationMessage \<Rightarrow> outcome" where
  "on_message_clear_status K subscribetopic message = returns [CreateTask async_clear_status]"

text \<open>
  The module binds the package by \<^verbatim>\<open>import dateutil\<close> alone (line 11) and never imports
  the submodule. In python-dateutil 2.7, which \<^verbatim>\<open>setup.py\<close> requires
  (\<^verbatim>\<open>python-dateutil~=2.7.3\<close>), the package does not load its submodules, so the
  attribute lookup \<^verbatim>\<open>dateutil.parser\<close> of line 598 raises \<^verbatim>\<open>AttributeError\<close> before
  anything is parsed. \<open>dateutil_parser\<close> is that lookup: the exception, or the parser.
\<close>

definition dateutil_parser :: "exn + (string \<Rightarrow> exn + datetime)" where
  "dateutil_parser = Inl AttributeError"

definition on_message_set_datetime :: "Env \<Rightarrow> SubscribeTopic \<Rightarrow> ApplicationMessage \<Rightarrow> outcome" where
  "on_message_set_datetime K subscribetopic message =
     (case decode_data (msg_data message) of
        Inl e \<Rightarrow> raises e
      | Inr value \<Rightarrow>
          if truthy value then
            (case dateutil_parser of
               Inl e \<Rightarrow> raises e
             | Inr parse \<Rightarrow>
                 (case parse (fmt value) of
                    Inl e \<Rightarrow> raises e
                  | Inr parsed \<Rightarrow> returns [CreateTask (async_set_datetime (Some parsed))]))
          else returns [CreateTask (async_set_datetime None)])"

definition on_message_switch :: "Env \<Rightarrow> SubscribeTopic \<Rightarrow> ApplicationMessage \<Rightarrow> outcome" where
  "on_message_switch K subscribetopic message =
     (let switch_number = st_args subscribetopic in
      case decode_data (msg_data message) of
        Inl e \<Rightarrow> raises e
      | Inr name \<Rightarrow>
          (case OnOff_parse_name K name of
             None \<Rightarrow> returns [Log WARNING CannotSetSwitch]
           | Some state \<Rightarrow>
               returns [CreateTask (async_set_switch_state switch_number (OnOff_value state \<noteq> 0))]))"

text \<open>\<^verbatim>\<open>subscribetopic.on_message(subscribetopic, message)\<close>\<close>

definition call_on_message :: "Env \<Rightarrow> SubscribeTopic \<Rightarrow> ApplicationMessage \<Rightarrow> outcome" where
  "call_on_message K subscribetopic message =
     (case st_on_message subscribetopic of
        handler_on_message_clear_status \<Rightarrow> on_message_clear_status K subscribetopic message
      | handler_on_message_set_datetime \<Rightarrow> on_message_set_datetime K subscribetopic message
      | handler_on_message_baseunit \<Rightarrow> on_message_baseunit K subscribetopic message
      | handler_on_message_switch \<Rightarrow> on_message_switch K subscribetopic message)"

text \<open>The list of topics built by \<^verbatim>\<open>__init__\<close>, and the lookup dict made from it (of two
  entries with one topic the later one stays).\<close>

definition subscribetopics :: "Env \<Rightarrow> Config \<Rightarrow> SubscribeTopic list" where
  "subscribetopics K cfg =
     [\<lparr>st_topic = sub_topic (baseunit cfg) TOPIC_CLEAR_STATUS,
       st_on_message = handler_on_message_clear_status, st_args = ArgsNone\<rparr>,
      \<lparr>st_topic = sub_topic3 (baseunit cfg) TOPIC_DATETIME TOPIC_SET,
       st_on_message = handler_on_message_set_datetime, st_args = ArgsNone\<rparr>] @
     map (\<lambda>name. \<lparr>st_topic = sub_topic3 (baseunit cfg) name TOPIC_SET,
                  st_on_message = handler_on_message_baseunit, st_args = ArgsName name\<rparr>)
         [BaseUnit_PROP_OPERATION_MODE K] @
     concat (map (\<lambda>switch_number.
                    case map_of (switches cfg) switch_number of
                      None \<Rightarrow> []
                    | Some switch_config \<Rightarrow>
                        if truthy (switch_topic switch_config) then
                          [\<lparr>st_topic = sub_topic (fmt (switch_topic switch_config)) TOPIC_SET,
                            st_on_message = handler_on_message_switch,
                            st_args = ArgsSwitch switch_number\<rparr>]
                        else [])
                 (map fst (switches cfg)))"

definition subscribetopics_lookup :: "Env \<Rightarrow> Config \<Rightarrow> string \<Rightarrow> SubscribeTopic option" where
  "subscribetopics_lookup K cfg = map_of (rev (map (\<lambda>st. (st_topic st, st)) (subscribetopics K cfg)))"

text \<open>
  What \<^verbatim>\<open>deliver_message(timeout=1)\<close> can end with in one iteration of \<^verbatim>\<open>async_loop\<close>:
  a timeout, another exception, or a message. \<open>Sigint\<close> is an iteration in which the
  signal handler ran and the wait then timed out. The loop is run on a finite list of
  such deliveries, the prefix of an unbounded run.
\<close>

datatype delivery = TimeoutError | DeliverException | Delivered ApplicationMessage | Sigint

definition process_message :: "Env \<Rightarrow> Config \<Rightarrow> ApplicationMessage \<Rightarrow> effect list" where
  "process_message K cfg message =
     (let out = (case subscribetopics_lookup K cfg (msg_topic message) of
                   None \<Rightarrow> raises KeyError
                 | Some subscribetopic \<Rightarrow> call_on_message K subscribetopic message)
      in fst out @ (case snd out of None \<Rightarrow> [] | Some e \<Rightarrow> [Log ERROR ExceptionProcessingMessage]))"

fun async_loop :: "Env \<Rightarrow> Config \<Rightarrow> bool \<Rightarrow> delivery list \<Rightarrow> effect list" where
  "async_loop K cfg shutdown [] = []"
| "async_loop K cfg shutdown (d # ds) =
     (if shutdown then []
      else case d of
             TimeoutError \<Rightarrow> async_loop K cfg shutdown ds
           | DeliverException \<Rightarrow> Log ERROR ExceptionWaitingForMessage # async_loop K cfg shutdown ds
           | Delivered message \<Rightarrow> process_message K cfg message @ async_loop K cfg shutdown ds
           | Sigint \<Rightarrow> Log DEBUG SignalReceived # async_loop K cfg True ds)"

subsection \<open>The registry invariant\<close>

text \<open>
  The handles in the loop's schedule have distinct numbers, all below the next fresh one,
  and every handle that is not cancelled is the one the registry holds for its device.
\<close>

definition registry_inv :: "Translator \<Rightarrow> bool" where
  "registry_inv s \<longleftrightarrow>
     distinct (map fst (loop_scheduled s)) \<and>
     (\<forall>e \<in> set (loop_scheduled s). fst e < loop_next_handle s) \<and>
     (\<forall>e \<in> set (loop_scheduled s). \<not> h_cancelled (snd e) \<longrightarrow>
        map_of (auto_reset_handles s) (h_arg (snd e)) = Some (fst e))"

text \<open>What a Trigger event does to the registry: lines 328 to 334 of \<^verbatim>\<open>_device_on_event\<close>.\<close>

definition arm :: "int \<Rightarrow> nat \<Rightarrow> Translator \<Rightarrow> Translator" where
  "arm delay d s =
     (let s1 = (case map_of (auto_reset_handles s) d of
                  None \<Rightarrow> s
                | Some handle \<Rightarrow> handle_cancel handle s);
          (handle, s2) = call_later delay d s1
      in s2\<lparr>auto_reset_handles := AList.update d handle (auto_reset_handles s2)\<rparr>)"

subsection \<open>Example values\<close>

definition example_cfg :: Config where
  "example_cfg =
     \<lparr>baseunit = ''home/alarm'',
      devices = (\<lambda>i. if i = 7 then Some \<lparr>topic = Some ''home/hall'', ha_name = Some ''Hall'',
                                            auto_reset_interval = None\<rparr>
                     else if i = 8 then Some \<lparr>topic = Some ''home/door'', ha_name = Some ''Door'',
                                            auto_reset_interval = Some 5\<rparr>
                     else None),
      switches = [(SwitchNumber 1, \<lparr>switch_topic = Some ''home/sw1'', switch_ha_name = Some ''Lamp''\<rparr>)],
      ha_discovery_prefix = Some ''homeassistant''\<rparr>"

definition example_device :: Device where
  "example_device =
     \<lparr>device_id = 7, is_special = False, dev_type = PIRSensor, attrs = [],
      on_event = None, on_properties_changed = None\<rparr>"

text \<open>
  An environment for the examples: property names as the driver could spell them, small
  flag enums, name parsers that know the members by their exact names, and the equality
  of an integer enum whose members have the values of \<open>example_state_value\<close>.
\<close>

definition example_state_value :: "BaseUnitState \<Rightarrow> int" where
  "example_state_value st =
     (case st of Disarm \<Rightarrow> 0 | Home \<Rightarrow> 1 | Away \<Rightarrow> 2 | Monitor \<Rightarrow> 4
      | AwayExitDelay \<Rightarrow> 8 | AwayEntryDelay \<Rightarrow> 9 | OtherBaseUnitState n \<Rightarrow> n)"

definition example_env :: Env where
  "example_env =
     \<lparr>BaseUnit_PROP_STATE = ''state'',
      BaseUnit_PROP_IS_CONNECTED = ''is_connected'',
      BaseUnit_PROP_ROM_VERSION = ''rom_version'',
      BaseUnit_PROP_EXIT_DELAY = ''exit_delay'',
      BaseUnit_PROP_ENTRY_DELAY = ''entry_delay'',
      BaseUnit_PROP_OPERATION_MODE = ''operation_mode'',
      Device_PROP_IS_CLOSED = ''is_closed'',
      Device_PROP_CATEGORY = ''category'',
      Device_PROP_CHARACTERISTICS = ''characteristics'',
      Device_PROP_ENABLE_STATUS = ''enable_status'',
      Device_PROP_SWITCHES = ''switches'',
      Device_PROP_DEVICE_ID = ''device_id'',
      Device_PROP_ZONE = ''zone'',
      Device_PROP_TYPE = ''type'',
      Device_PROP_RSSI_DB = ''rssi_db'',
      Device_PROP_RSSI_BARS = ''rssi_bars'',
      SpecialDevice_PROP_CURRENT_READING = ''current_reading'',
      SpecialDevice_PROP_SPECIAL_STATUS = ''special_status'',
      SpecialDevice_PROP_HIGH_LIMIT = ''high_limit'',
      SpecialDevice_PROP_LOW_LIMIT = ''low_limit'',
      SpecialDevice_PROP_CONTROL_LIMIT_FIELDS_EXIST = ''control_limit_fields_exist'',
      SpecialDevice_PROP_CONTROL_HIGH_LIMIT = ''control_high_limit'',
      SpecialDevice_PROP_CONTROL_LOW_LIMIT = ''control_low_limit'',
      DCFlags = [(''A'', 1), (''B'', 2), (''C'', 4)],
      ESFlags = [(''Bypass'', 32768), (''Delay'', 16384)],
      SwitchFlags = [(''SW01'', 32768), (''SW02'', 16384)],
      SSFlags = [(''ControlAlarm'', 128), (''HighLowOperation'', 64)],
      OperationMode_parse_name =
        (\<lambda>name. if name = Some ''Disarm'' then Some (OperationMode 0)
                 else if name = Some ''Home'' then Some (OperationMode 1)
                 else if name = Some ''Away'' then Some (OperationMode 2)
                 else if name = Some ''Monitor'' then Some (OperationMode 8)
                 else None),
      OnOff_parse_name =
        (\<lambda>name. if name = Some ''On'' then Some On
                 else if name = Some ''Off'' then Some Off
                 else None),
      BaseUnitState_eq =
        (\<lambda>value member.
           case value of
             PBaseUnitState st \<Rightarrow> st = member
           | PInt n \<Rightarrow> n = example_state_value member
           | PBool b \<Rightarrow> (if b then 1 else 0) = example_state_value member
           | _ \<Rightarrow> False),
      PROJECT_NAME = ''lifesospy_mqtt''\<rparr>"

definition example_contact_id :: "int option \<Rightarrow> ContactID" where
  "example_contact_id code =
     \<lparr>cid_as_dict = Inr [(''event_qualifier'', PStr ''Event''), (''event_category'', PStr ''Trouble'')],
      cid_event_code = Inr code,
      cid_event_qualifier = Inr Event,
      cid_event_category = Inr (OtherEventCategory 3)\<rparr>"

definition example_door :: Device where
  "example_door =
     \<lparr>device_id = 8, is_special = False, dev_type = DoorMagnet,
      attrs = [(''is_closed'', PBool True)],
      on_event = None, on_properties_changed = None\<rparr>"

definition example_keypad :: Device where
  "example_keypad =
     \<lparr>device_id = 9, is_special = False, dev_type = OtherDeviceType 1, attrs = [],
      on_event = None, on_properties_changed = None\<rparr>"

definition bad_utf8 :: string where
  "bad_utf8 = [char_of (255 :: nat)]"

definition datetime_st :: SubscribeTopic where
  "datetime_st = \<lparr>st_topic = ''home/alarm/datetime/set'',
                   st_on_message = handler_on_message_set_datetime, st_args = ArgsNone\<rparr>"

definition datetime_message :: "string \<Rightarrow> ApplicationMessage" where
  "datetime_message data = \<lparr>msg_topic = ''home/alarm/datetime/set'', msg_data = data\<rparr>"

definition operation_mode_st :: SubscribeTopic where
  "operation_mode_st = \<lparr>st_topic = ''home/alarm/operation_mode/set'',
                         st_on_message = handler_on_message_baseunit,
                         st_args = ArgsName ''operation_mode''\<rparr>"

definition switch_st :: SubscribeTopic where
  "switch_st = \<lparr>st_topic = ''home/sw1/set'', st_on_message = handler_on_message_switch,
                 st_args = ArgsSwitch (SwitchNumber 1)\<rparr>"

definition command_message :: "string \<Rightarrow> ApplicationMessage" where
  "command_message data = \<lparr>msg_topic = ''home/alarm/operation_mode/set'', msg_data = data\<rparr>"

section \<open>Properties\<close>

subsection \<open>The auto-reset timer registry\<close>

lemma map_fst_cancel_in: "map fst (cancel_in h xs) = map fst xs"
  by (induction xs) (auto simp: cancel_in_def)

lemma live_cancel_in:
  "e \<in> set (cancel_in h xs) \<Longrightarrow> \<not> h_cancelled (snd e) \<Longrightarrow> e \<in> set xs \<and> fst e \<noteq> h"
  by (auto simp: cancel_in_def split: if_splits)

lemma fst_cancel_in: "e \<in> set (cancel_in h xs) \<Longrightarrow> fst e \<in> fst ` set xs"
proof -
  assume "e \<in> set (cancel_in h xs)"
  then have "fst e \<in> set (map fst (cancel_in h xs))" by (simp del: map_fst_cancel_in)
  then show ?thesis by (simp add: map_fst_cancel_in)
qed

lemma inv_init: "registry_inv (init t0)"
  by (simp add: registry_inv_def init_def)

lemma inv_advance: "registry_inv s \<Longrightarrow> registry_inv (s\<lparr>loop_time := t\<rparr>)"
  by (simp add: registry_inv_def)

lemma inv_cancel_weak:
  assumes "registry_inv s"
  shows "registry_inv (handle_cancel h s)"
proof -
  have "fst e < loop_next_handle s" if "e \<in> set (cancel_in h (loop_scheduled s))" for e
  proof -
    from that have "fst e \<in> fst ` set (loop_scheduled s)" by (rule fst_cancel_in)
    with assms show ?thesis by (auto simp: registry_inv_def)
  qed
  moreover have "map_of (auto_reset_handles s) (h_arg (snd e)) = Some (fst e)"
    if "e \<in> set (cancel_in h (loop_scheduled s))" "\<not> h_cancelled (snd e)" for e
  proof -
    from that have "e \<in> set (loop_scheduled s)" by (auto dest: live_cancel_in)
    with assms that(2) show ?thesis by (auto simp: registry_inv_def)
  qed
  ultimately show ?thesis
    using assms by (simp add: registry_inv_def handle_cancel_def map_fst_cancel_in)
qed

lemma cancel_stored_no_live:
  fixes d :: nat
  assumes "registry_inv s"
  defines "s1 \<equiv> (case map_of (auto_reset_handles s) d of None \<Rightarrow> s | Some handle \<Rightarrow> handle_cancel handle s)"
  shows "registry_inv s1" and "auto_reset_handles s1 = auto_reset_handles s"
    and "loop_time s1 = loop_time s" and "loop_next_handle s1 = loop_next_handle s"
    and "\<forall>e \<in> set (loop_scheduled s1). h_arg (snd e) = d \<longrightarrow> h_cancelled (snd e)"
proof -
  show "registry_inv s1" using assms(1) by (auto simp: s1_def inv_cancel_weak split: option.splits)
  show "auto_reset_handles s1 = auto_reset_handles s" "loop_time s1 = loop_time s" 
       "loop_next_handle s1 = loop_next_handle s"
    by (auto simp: s1_def handle_cancel_def split: option.splits)
  show "\<forall>e \<in> set (loop_scheduled s1). h_arg (snd e) = d \<longrightarrow> h_cancelled (snd e)"
  proof (intro ballI impI, rule ccontr)
    fix e assume e: "e \<in> set (loop_scheduled s1)" "h_arg (snd e) = d" "\<not> h_cancelled (snd e)"
    show False
    proof (cases "map_of (auto_reset_handles s) d")
      case None
      with e assms(1) show False by (auto simp: s1_def registry_inv_def)
    next
      case (Some h)
      with e have "e \<in> set (loop_scheduled s) \<and> fst e \<noteq> h"
        by (auto simp: s1_def handle_cancel_def dest: live_cancel_in)
      with e Some assms(1) show False by (auto simp: registry_inv_def)
    qed
  qed
qed

lemma inv_arm:
  assumes "registry_inv s"
  shows "registry_inv (arm delay d s)"
proof -
  define s1 where "s1 = (case map_of (auto_reset_handles s) d of None \<Rightarrow> s | Some handle \<Rightarrow> handle_cancel handle s)"
  note f = cancel_stored_no_live [OF assms, of d, folded s1_def]
  have arm: "arm delay d s = (s1\<lparr>loop_scheduled := loop_scheduled s1 @
               [(loop_next_handle s1, \<lparr>h_when = loop_time s1 + delay, h_arg = d, h_cancelled = False\<rparr>)],
             loop_next_handle := Suc (loop_next_handle s1),
             auto_reset_handles := AList.update d (loop_next_handle s1) (auto_reset_handles s1)\<rparr>)"
    by (simp add: arm_def call_later_def Let_def s1_def [symmetric])
  show ?thesis
    unfolding arm using f(1) f(5)
    by (auto simp: registry_inv_def update_conv')
qed

lemma arm_live:
  assumes "registry_inv s"
  shows "live_timers d (arm delay d s) =
           [(loop_next_handle s, \<lparr>h_when = loop_time s + delay, h_arg = d, h_cancelled = False\<rparr>)]"
proof -
  define s1 where "s1 = (case map_of (auto_reset_handles s) d of None \<Rightarrow> s | Some handle \<Rightarrow> handle_cancel handle s)"
  note f = cancel_stored_no_live [OF assms, of d, folded s1_def]
  have arm: "arm delay d s = (s1\<lparr>loop_scheduled := loop_scheduled s1 @
               [(loop_next_handle s1, \<lparr>h_when = loop_time s1 + delay, h_arg = d, h_cancelled = False\<rparr>)],
             loop_next_handle := Suc (loop_next_handle s1),
             auto_reset_handles := AList.update d (loop_next_handle s1) (auto_reset_handles s1)\<rparr>)"
    by (simp add: arm_def call_later_def Let_def s1_def [symmetric])
  have "filter (\<lambda>e. h_arg (snd e) = d \<and> \<not> h_cancelled (snd e)) (loop_scheduled s1) = []"
    using f(5) by (auto simp: filter_empty_conv)
  then show ?thesis
    unfolding arm live_timers_def using f(3,4) by simp
qed

lemma device_on_event_state:
  "snd (device_on_event cfg device event_code s) =
     (case devices cfg (device_id device) of
        None \<Rightarrow> s
      | Some device_config \<Rightarrow>
          if truthy (topic device_config) \<and> event_code = Trigger
          then arm (interval_or_default (auto_reset_interval device_config)) (device_id device) s
          else s)"
  by (simp add: device_on_event_def arm_def Let_def split: option.splits prod.splits)

lemma inv_device_on_event:
  "registry_inv s \<Longrightarrow> registry_inv (snd (device_on_event cfg device event_code s))"
  by (simp add: device_on_event_state inv_arm split: option.splits)

lemma set_delete_subset: "e \<in> set (AList.delete k xs) \<Longrightarrow> e \<in> set xs \<and> fst e \<noteq> k"
  by (auto simp: AList.delete_eq)

lemma inv_drop_handle:
  assumes "registry_inv s"
  shows "registry_inv (s\<lparr>loop_scheduled := AList.delete h (loop_scheduled s)\<rparr>)"
  using assms unfolding registry_inv_def
  by (auto simp: distinct_delete dest: set_delete_subset)

lemma inv_run_handle:
  assumes "registry_inv s"
  shows "registry_inv (snd (loop_run_handle cfg h s))"
proof (cases "map_of (loop_scheduled s) h")
  case None
  with assms show ?thesis by (simp add: loop_run_handle_def)
next
  case (Some t)
  have mem: "(h, t) \<in> set (loop_scheduled s)" using Some by (rule map_of_SomeD)
  show ?thesis
  proof (cases "\<not> h_cancelled t \<and> h_when t \<le> loop_time s")
    case False
    with Some assms show ?thesis
      by (auto simp: loop_run_handle_def inv_drop_handle)
  next
    case True
    have stored: "map_of (auto_reset_handles s) (h_arg t) = Some h"
      using assms mem True by (auto simp: registry_inv_def)
    have st: "snd (loop_run_handle cfg h s) =
        s\<lparr>loop_scheduled := AList.delete h (loop_scheduled s),
          auto_reset_handles := AList.delete (h_arg t) (auto_reset_handles s)\<rparr>"
      using Some True stored
      by (simp add: loop_run_handle_def auto_reset_def Let_def split: prod.splits)
    show ?thesis
      unfolding st registry_inv_def
    proof (intro conjI ballI impI)
      show "distinct (map fst (loop_scheduled (s\<lparr>loop_scheduled := AList.delete h (loop_scheduled s),
          auto_reset_handles := AList.delete (h_arg t) (auto_reset_handles s)\<rparr>)))"
        using assms by (simp add: registry_inv_def distinct_delete)
    next
      fix e assume "e \<in> set (loop_scheduled (s\<lparr>loop_scheduled := AList.delete h (loop_scheduled s),
          auto_reset_handles := AList.delete (h_arg t) (auto_reset_handles s)\<rparr>))"
      then show "fst e < loop_next_handle (s\<lparr>loop_scheduled := AList.delete h (loop_scheduled s),
          auto_reset_handles := AList.delete (h_arg t) (auto_reset_handles s)\<rparr>)"
        using assms by (auto simp: registry_inv_def dest: set_delete_subset)
    next
      fix e assume e: "e \<in> set (loop_scheduled (s\<lparr>loop_scheduled := AList.delete h (loop_scheduled s),
          auto_reset_handles := AList.delete (h_arg t) (auto_reset_handles s)\<rparr>))"
        and live: "\<not> h_cancelled (snd e)"
      from e have e': "e \<in> set (loop_scheduled s)" "fst e \<noteq> h"
        by (auto dest: set_delete_subset)
      with live assms have old: "map_of (auto_reset_handles s) (h_arg (snd e)) = Some (fst e)"
        by (auto simp: registry_inv_def)
      with stored e'(2) have "h_arg (snd e) \<noteq> h_arg t" by auto
      with old show "map_of (auto_reset_handles (s\<lparr>loop_scheduled := AList.delete h (loop_scheduled s),
          auto_reset_handles := AList.delete (h_arg t) (auto_reset_handles s)\<rparr>)) (h_arg (snd e)) = Some (fst e)"
        by (simp add: delete_conv')
    qed
  qed
qed

lemma async_stop_fold:
  "fold (\<lambda>item s'. (handle_cancel (snd item) s')
                       \<lparr>auto_reset_handles := AList.delete (fst item) (auto_reset_handles s')\<rparr>) items s =
   s\<lparr>loop_scheduled := fold (\<lambda>item. cancel_in (snd item)) items (loop_scheduled s),
     auto_reset_handles := fold (\<lambda>item. AList.delete (fst item)) items (auto_reset_handles s)\<rparr>"
  by (induction items arbitrary: s) (simp_all add: handle_cancel_def)

lemma map_fst_fold_cancel:
  "map fst (fold (\<lambda>item. cancel_in (snd item)) items xs) = map fst xs"
  by (induction items arbitrary: xs) (simp_all add: map_fst_cancel_in)

lemma live_fold_cancel:
  "e \<in> set (fold (\<lambda>item. cancel_in (snd item)) items xs) \<Longrightarrow> \<not> h_cancelled (snd e) \<Longrightarrow>
     e \<in> set xs \<and> fst e \<notin> snd ` set items"
proof (induction items arbitrary: xs)
  case Nil
  then show ?case by simp
next
  case (Cons item items)
  from Cons.prems have "e \<in> set (cancel_in (snd item) xs) \<and> fst e \<notin> snd ` set items"
    using Cons.IH [of "cancel_in (snd item) xs"] by simp
  with Cons.prems(2) show ?case by (auto dest: live_cancel_in)
qed

lemma inv_async_stop:
  assumes "registry_inv s"
  shows "registry_inv (async_stop s)"
proof -
  have no_live: "h_cancelled (snd e)"
    if "e \<in> set (fold (\<lambda>item. cancel_in (snd item)) (auto_reset_handles s) (loop_scheduled s))" for e
  proof (rule ccontr)
    assume live: "\<not> h_cancelled (snd e)"
    with that have e: "e \<in> set (loop_scheduled s)" "fst e \<notin> snd ` set (auto_reset_handles s)"
      by (auto dest: live_fold_cancel)
    with live assms have "map_of (auto_reset_handles s) (h_arg (snd e)) = Some (fst e)"
      by (auto simp: registry_inv_def)
    then have "(h_arg (snd e), fst e) \<in> set (auto_reset_handles s)" by (rule map_of_SomeD)
    then have "fst e \<in> snd ` set (auto_reset_handles s)" by force
    with e(2) show False by simp
  qed
  have bound: "fst e < loop_next_handle s"
    if "e \<in> set (fold (\<lambda>item. cancel_in (snd item)) (auto_reset_handles s) (loop_scheduled s))" for e
  proof -
    from that have "fst e \<in> set (map fst (fold (\<lambda>item. cancel_in (snd item)) (auto_reset_handles s) (loop_scheduled s)))"
      by simp
    then have "fst e \<in> fst ` set (loop_scheduled s)" by (simp add: map_fst_fold_cancel)
    with assms show ?thesis by (auto simp: registry_inv_def)
  qed
  show ?thesis
    using assms no_live bound
    by (simp add: async_stop_def async_stop_fold registry_inv_def map_fst_fold_cancel)
qed

lemma inv_do_step: "registry_inv s \<Longrightarrow> registry_inv (do_step cfg x s)"
  by (cases x) (simp_all add: inv_device_on_event inv_advance inv_run_handle inv_async_stop)

lemma inv_run: "registry_inv s \<Longrightarrow> registry_inv (run cfg steps s)"
  unfolding run_def by (induction steps arbitrary: s) (simp_all add: inv_do_step)

lemma filter_same_key:
  "distinct (map fst xs) \<Longrightarrow> \<forall>e \<in> set xs. P e \<longrightarrow> fst e = k \<Longrightarrow> length (filter P xs) \<le> 1"
proof (induction xs)
  case Nil
  then show ?case by simp
next
  case (Cons x xs)
  show ?case
  proof (cases "P x")
    case False
    with Cons show ?thesis by simp
  next
    case True
    with Cons.prems have k: "fst x = k" by simp
    have "filter P xs = []"
    proof (rule ccontr)
      assume "filter P xs \<noteq> []"
      then obtain e where "e \<in> set xs" "P e" by (auto simp: filter_empty_conv)
      with Cons.prems(2) have "fst e = k" by simp
      moreover from \<open>e \<in> set xs\<close> have "fst e \<in> set (map fst xs)" by simp
      ultimately show False using k Cons.prems(1) by simp
    qed
    with True show ?thesis by simp
  qed
qed

lemma inv_at_most_one:
  assumes "registry_inv s"
  shows "length (live_timers d s) \<le> 1"
proof (cases "map_of (auto_reset_handles s) d")
  case None
  with assms have "live_timers d s = []"
    by (auto simp: live_timers_def registry_inv_def filter_empty_conv)
  then show ?thesis by simp
next
  case (Some h)
  with assms show ?thesis
    unfolding live_timers_def
    by (intro filter_same_key [where k = h]) (auto simp: registry_inv_def)
qed

lemma inv_reachable: "registry_inv (run cfg steps (init t0))"
  by (rule inv_run) (rule inv_init)

lemma arm_fields:
  assumes "registry_inv s"
  shows "loop_next_handle (arm delay d s) = Suc (loop_next_handle s)"
    and "loop_time (arm delay d s) = loop_time s"
    and "map_of (auto_reset_handles (arm delay d s)) d = Some (loop_next_handle s)"
    and "(loop_next_handle s, \<lparr>h_when = loop_time s + delay, h_arg = d, h_cancelled = False\<rparr>)
           \<in> set (loop_scheduled (arm delay d s))"
    and "map_of (loop_scheduled (arm delay d s)) (loop_next_handle s) =
           Some \<lparr>h_when = loop_time s + delay, h_arg = d, h_cancelled = False\<rparr>"
proof -
  define s1 where "s1 = (case map_of (auto_reset_handles s) d of None \<Rightarrow> s | Some handle \<Rightarrow> handle_cancel handle s)"
  note f = cancel_stored_no_live [OF assms, of d, folded s1_def]
  have arm: "arm delay d s = (s1\<lparr>loop_scheduled := loop_scheduled s1 @
               [(loop_next_handle s1, \<lparr>h_when = loop_time s1 + delay, h_arg = d, h_cancelled = False\<rparr>)],
             loop_next_handle := Suc (loop_next_handle s1),
             auto_reset_handles := AList.update d (loop_next_handle s1) (auto_reset_handles s1)\<rparr>)"
    by (simp add: arm_def call_later_def Let_def s1_def [symmetric])
  show "loop_next_handle (arm delay d s) = Suc (loop_next_handle s)"
    "loop_time (arm delay d s) = loop_time s"
    "map_of (auto_reset_handles (arm delay d s)) d = Some (loop_next_handle s)"
    "(loop_next_handle s, \<lparr>h_when = loop_time s + delay, h_arg = d, h_cancelled = False\<rparr>)
           \<in> set (loop_scheduled (arm delay d s))"
    unfolding arm using f(2,3,4) by (simp_all add: update_conv')
  have "loop_next_handle s1 \<notin> fst ` set (loop_scheduled s1)"
    using f(1) by (auto simp: registry_inv_def)
  then have "map_of (loop_scheduled s1) (loop_next_handle s1) = None"
    by (simp add: map_of_eq_None_iff)
  then show "map_of (loop_scheduled (arm delay d s)) (loop_next_handle s) =
           Some \<lparr>h_when = loop_time s + delay, h_arg = d, h_cancelled = False\<rparr>"
    unfolding arm using f(3,4) by (simp add: map_add_def)
qed

lemma rearm_cancels:
  assumes "registry_inv s" "map_of (auto_reset_handles s) d = Some h" "(h, t) \<in> set (loop_scheduled s)"
  shows "(h, t\<lparr>h_cancelled := True\<rparr>) \<in> set (loop_scheduled (arm delay d s))"
proof -
  have "(h, t\<lparr>h_cancelled := True\<rparr>) \<in> set (cancel_in h (loop_scheduled s))"
    using assms(3) by (force simp: cancel_in_def)
  then show ?thesis
    using assms(2) by (simp add: arm_def call_later_def Let_def handle_cancel_def)
qed

text \<open>
  C1. In every state the registry can reach from its initial state by device events,
  passing time, timers that the loop runs and \<^verbatim>\<open>async_stop\<close>, a device has at most one
  live timer. For a device whose config has a topic, a Trigger event stores a fresh
  handle; a second Trigger event, with no fire in between, cancels that handle, stores a
  new one and leaves exactly one live timer, due at the time of the second event plus
  the interval.
\<close>

theorem one_live_timer_per_device:
  "length (live_timers d (run cfg steps (init t0))) \<le> 1 \<and>
   (devices cfg (device_id device) = Some device_config \<longrightarrow> truthy (topic device_config) \<longrightarrow>
     (let s = run cfg steps (init t0);
          delay = interval_or_default (auto_reset_interval device_config);
          s1 = do_step cfg (DeviceEvent device Trigger) s;
          s2 = do_step cfg (Advance dt) s1;
          s3 = do_step cfg (DeviceEvent device Trigger) s2
      in map_of (auto_reset_handles s1) (device_id device) = Some (loop_next_handle s) \<and>
         live_timers (device_id device) s1 =
           [(loop_next_handle s,
             \<lparr>h_when = loop_time s + delay, h_arg = device_id device, h_cancelled = False\<rparr>)] \<and>
         (loop_next_handle s,
             \<lparr>h_when = loop_time s + delay, h_arg = device_id device, h_cancelled = True\<rparr>)
           \<in> set (loop_scheduled s3) \<and>
         map_of (auto_reset_handles s3) (device_id device) = Some (loop_next_handle s2) \<and>
         loop_next_handle s2 \<noteq> loop_next_handle s \<and>
         live_timers (device_id device) s3 =
           [(loop_next_handle s2,
             \<lparr>h_when = loop_time s2 + delay, h_arg = device_id device, h_cancelled = False\<rparr>)]))"
proof (intro conjI impI)
  show "length (live_timers d (run cfg steps (init t0))) \<le> 1"
    by (rule inv_at_most_one) (rule inv_reachable)
next
  assume c: "devices cfg (device_id device) = Some device_config" and t: "truthy (topic device_config)"
  define s where "s = run cfg steps (init t0)"
  define delay where "delay = interval_or_default (auto_reset_interval device_config)"
  define s1 where "s1 = arm delay (device_id device) s"
  define s2 where "s2 = s1\<lparr>loop_time := loop_time s1 + int dt\<rparr>"
  define s3 where "s3 = arm delay (device_id device) s2"
  have i: "registry_inv s" unfolding s_def by (rule inv_reachable)
  have i1: "registry_inv s1" unfolding s1_def using i by (rule inv_arm)
  have i2: "registry_inv s2" unfolding s2_def using i1 by (rule inv_advance)
  have e1: "do_step cfg (DeviceEvent device Trigger) s = s1"
    using c t by (simp add: device_on_event_state s1_def delay_def)
  have e2: "do_step cfg (Advance dt) s1 = s2" by (simp add: s2_def)
  have e3: "do_step cfg (DeviceEvent device Trigger) s2 = s3"
    using c t by (simp add: device_on_event_state s3_def delay_def)
  note a1 = arm_fields [OF i, of delay "device_id device", folded s1_def]
  have st2: "map_of (auto_reset_handles s2) (device_id device) = Some (loop_next_handle s)"
    "(loop_next_handle s, \<lparr>h_when = loop_time s + delay, h_arg = device_id device, h_cancelled = False\<rparr>)
       \<in> set (loop_scheduled s2)"
    "loop_next_handle s2 = Suc (loop_next_handle s)"
    using a1 by (simp_all add: s2_def)
  have "(loop_next_handle s, \<lparr>h_when = loop_time s + delay, h_arg = device_id device, h_cancelled = False\<rparr>
            \<lparr>h_cancelled := True\<rparr>) \<in> set (loop_scheduled s3)"
    unfolding s3_def using i2 st2(1) st2(2) by (rule rearm_cancels)
  then have old: "(loop_next_handle s, \<lparr>h_when = loop_time s + delay, h_arg = device_id device, h_cancelled = True\<rparr>)
     \<in> set (loop_scheduled s3)" by simp
  have "let s = s; delay = delay; s1 = s1; s2 = s2; s3 = s3 in
         map_of (auto_reset_handles s1) (device_id device) = Some (loop_next_handle s) \<and>
         live_timers (device_id device) s1 =
           [(loop_next_handle s,
             \<lparr>h_when = loop_time s + delay, h_arg = device_id device, h_cancelled = False\<rparr>)] \<and>
         (loop_next_handle s,
             \<lparr>h_when = loop_time s + delay, h_arg = device_id device, h_cancelled = True\<rparr>)
           \<in> set (loop_scheduled s3) \<and>
         map_of (auto_reset_handles s3) (device_id device) = Some (loop_next_handle s2) \<and>
         loop_next_handle s2 \<noteq> loop_next_handle s \<and>
         live_timers (device_id device) s3 =
           [(loop_next_handle s2,
             \<lparr>h_when = loop_time s2 + delay, h_arg = device_id device, h_cancelled = False\<rparr>)]"
    unfolding Let_def
    using a1(3) arm_live [OF i, of "device_id device" delay, folded s1_def] old
      arm_fields(3) [OF i2, of delay "device_id device", folded s3_def] st2(3)
      arm_live [OF i2, of "device_id device" delay, folded s3_def]
    by simp
  then show "let s = run cfg steps (init t0);
          delay = interval_or_default (auto_reset_interval device_config);
          s1 = do_step cfg (DeviceEvent device Trigger) s;
          s2 = do_step cfg (Advance dt) s1;
          s3 = do_step cfg (DeviceEvent device Trigger) s2
      in map_of (auto_reset_handles s1) (device_id device) = Some (loop_next_handle s) \<and>
         live_timers (device_id device) s1 =
           [(loop_next_handle s,
             \<lparr>h_when = loop_time s + delay, h_arg = device_id device, h_cancelled = False\<rparr>)] \<and>
         (loop_next_handle s,
             \<lparr>h_when = loop_time s + delay, h_arg = device_id device, h_cancelled = True\<rparr>)
           \<in> set (loop_scheduled s3) \<and>
         map_of (auto_reset_handles s3) (device_id device) = Some (loop_next_handle s2) \<and>
         loop_next_handle s2 \<noteq> loop_next_handle s \<and>
         live_timers (device_id device) s3 =
           [(loop_next_handle s2,
             \<lparr>h_when = loop_time s2 + delay, h_arg = device_id device, h_cancelled = False\<rparr>)]"
    unfolding Let_def s_def [symmetric] delay_def [symmetric] e1 e2 e3 by simp
qed

theorem one_live_timer_per_device_witness:
  "devices example_cfg (device_id example_device) =
      Some \<lparr>topic = Some ''home/hall'', ha_name = Some ''Hall'', auto_reset_interval = None\<rparr> \<and>
   truthy (Some ''home/hall'') \<and>
   live_timers 7
     (do_step example_cfg (DeviceEvent example_device Trigger)
        (do_step example_cfg (Advance 10)
           (do_step example_cfg (DeviceEvent example_device Trigger) (run example_cfg [] (init 0))))) =
     [(1, \<lparr>h_when = 40, h_arg = 7, h_cancelled = False\<rparr>)]"
proof -
  have c: "devices example_cfg (device_id example_device) =
      Some \<lparr>topic = Some ''home/hall'', ha_name = Some ''Hall'', auto_reset_interval = None\<rparr>"
    by (simp add: example_cfg_def example_device_def)
  have t: "truthy (topic \<lparr>topic = Some ''home/hall'', ha_name = Some ''Hall'', auto_reset_interval = None\<rparr>)"
    by (simp add: truthy_def)
  have n: "loop_next_handle (do_step example_cfg (Advance 10)
           (do_step example_cfg (DeviceEvent example_device Trigger) (run example_cfg [] (init 0)))) = 1"
    by (simp add: example_cfg_def example_device_def run_def init_def device_on_event_def truthy_def
         call_later_def Let_def)
  have tm: "loop_time (do_step example_cfg (Advance 10)
           (do_step example_cfg (DeviceEvent example_device Trigger) (run example_cfg [] (init 0)))) = 10"
    by (simp add: example_cfg_def example_device_def run_def init_def device_on_event_def truthy_def
         call_later_def Let_def)
  have d: "device_id example_device = 7" by (simp add: example_device_def)
  show ?thesis
    using one_live_timer_per_device [of 7 example_cfg "[]" 0 example_device, THEN conjunct2, rule_format, OF c t, of 10]
      c t
    unfolding Let_def n tm d
    by (simp add: interval_or_default_def AUTO_RESET_INTERVAL_def truthy_def)
qed

text \<open>
  C2. For a device whose config has a topic, a device event publishes the event code,
  not retained, to \<open>topic/event_code\<close>, and nothing else unless the code is Trigger. A
  Trigger event also publishes \<open>on\<close>, retained, to the device topic and arms a timer for
  the device id, due after the configured interval, or after 30 seconds when none (or
  zero) is configured. When the loop runs that timer at or after its due time, the
  callback publishes \<open>off\<close>, retained, to the same topic; before that time it does
  nothing.
\<close>

theorem trigger_event_publishes_and_arms:
  assumes "devices cfg (device_id device) = Some device_config"
    and "topic device_config = Some t" and "t \<noteq> []"
  shows
   "(event_code \<noteq> Trigger \<longrightarrow>
       device_on_event cfg device event_code s =
         ([Publish (t @ ''/event_code'') (PDeviceEventCode event_code) False], s)) \<and>
    fst (device_on_event cfg device Trigger s) =
       [Publish (t @ ''/event_code'') (PDeviceEventCode Trigger) False, Publish t (POnOff On) True] \<and>
    async_publish_text (POnOff On) = Some ''on'' \<and>
    async_publish_text (POnOff Off) = Some ''off'' \<and>
    (let s0 = run cfg steps (init t0);
         s' = snd (device_on_event cfg device Trigger s0);
         due = loop_time s0 + (case auto_reset_interval device_config of
                                 None \<Rightarrow> 30 | Some n \<Rightarrow> if n = 0 then 30 else n)
     in map_of (auto_reset_handles s') (device_id device) = Some (loop_next_handle s0) \<and>
        live_timers (device_id device) s' =
          [(loop_next_handle s0, \<lparr>h_when = due, h_arg = device_id device, h_cancelled = False\<rparr>)] \<and>
        (\<forall>now. fst (loop_run_handle cfg (loop_next_handle s0) (s'\<lparr>loop_time := now\<rparr>)) =
                 (if due \<le> now then [Publish t (POnOff Off) True] else [])))"
proof -
  have tr: "truthy (topic device_config)" using assms by (simp add: truthy_def)
  have f: "fmt (topic device_config) = t" using assms by (simp add: fmt_def)
  have p1: "event_code \<noteq> Trigger \<longrightarrow>
       device_on_event cfg device event_code s =
         ([Publish (t @ ''/event_code'') (PDeviceEventCode event_code) False], s)"
    using assms(1) tr f by (simp add: device_on_event_def sub_topic_def)
  have p2: "fst (device_on_event cfg device Trigger s) =
       [Publish (t @ ''/event_code'') (PDeviceEventCode Trigger) False, Publish t (POnOff On) True]"
    using assms(1) tr f
    by (simp add: device_on_event_def sub_topic_def OnOff_parse_value_def Let_def split: prod.splits)
  have p3: "async_publish_text (POnOff On) = Some ''on''" "async_publish_text (POnOff Off) = Some ''off''"
    by (simp_all add: async_publish_text_def OnOff_str_def)
  define s0 where "s0 = run cfg steps (init t0)"
  define delay where "delay = interval_or_default (auto_reset_interval device_config)"
  define s' where "s' = arm delay (device_id device) s0"
  have i: "registry_inv s0" unfolding s0_def by (rule inv_reachable)
  have e: "snd (device_on_event cfg device Trigger s0) = s'"
    using assms(1) tr by (simp add: device_on_event_state s'_def delay_def)
  have dl: "(case auto_reset_interval device_config of
                                 None \<Rightarrow> 30 | Some n \<Rightarrow> if n = 0 then 30 else n) = delay"
    by (simp add: delay_def interval_or_default_def AUTO_RESET_INTERVAL_def split: option.splits)
  note a = arm_fields [OF i, of delay "device_id device", folded s'_def]
  have fire: "fst (loop_run_handle cfg (loop_next_handle s0) (s'\<lparr>loop_time := now\<rparr>)) =
                 (if loop_time s0 + delay \<le> now then [Publish t (POnOff Off) True] else [])" for now
    using a(3) a(5) assms(1) tr f
    by (simp add: loop_run_handle_def auto_reset_def Let_def OnOff_parse_value_def split: prod.splits)
  have p4: "let s0 = s0; s' = s'; due = loop_time s0 + delay
     in map_of (auto_reset_handles s') (device_id device) = Some (loop_next_handle s0) \<and>
        live_timers (device_id device) s' =
          [(loop_next_handle s0, \<lparr>h_when = due, h_arg = device_id device, h_cancelled = False\<rparr>)] \<and>
        (\<forall>now. fst (loop_run_handle cfg (loop_next_handle s0) (s'\<lparr>loop_time := now\<rparr>)) =
                 (if due \<le> now then [Publish t (POnOff Off) True] else []))"
    unfolding Let_def using a(3) arm_live [OF i, of "device_id device" delay, folded s'_def] fire
    by simp
  show ?thesis
    using p1 p2 p3 p4 unfolding Let_def s0_def [symmetric] e dl by simp
qed

theorem trigger_event_publishes_and_arms_witness:
  "devices example_cfg (device_id example_device) =
      Some \<lparr>topic = Some ''home/hall'', ha_name = Some ''Hall'', auto_reset_interval = None\<rparr> \<and>
   ''home/hall'' \<noteq> [] \<and>
   OtherDeviceEventCode 1 \<noteq> Trigger \<and>
   device_on_event example_cfg example_device (OtherDeviceEventCode 1) (init 100) =
     ([Publish ''home/hall/event_code'' (PDeviceEventCode (OtherDeviceEventCode 1)) False], init 100) \<and>
   fst (device_on_event example_cfg example_device Trigger (init 100)) =
     [Publish ''home/hall/event_code'' (PDeviceEventCode Trigger) False,
      Publish ''home/hall'' (POnOff On) True] \<and>
   live_timers 7 (snd (device_on_event example_cfg example_device Trigger (run example_cfg [] (init 100)))) =
     [(0, \<lparr>h_when = 130, h_arg = 7, h_cancelled = False\<rparr>)] \<and>
   fst (loop_run_handle example_cfg 0
         ((snd (device_on_event example_cfg example_device Trigger (run example_cfg [] (init 100))))
            \<lparr>loop_time := 130\<rparr>)) =
     [Publish ''home/hall'' (POnOff Off) True]"
proof -
  have c: "devices example_cfg (device_id example_device) =
      Some \<lparr>topic = Some ''home/hall'', ha_name = Some ''Hall'', auto_reset_interval = None\<rparr>"
    by (simp add: example_cfg_def example_device_def)
  have t: "topic \<lparr>topic = Some ''home/hall'', ha_name = Some ''Hall'', auto_reset_interval = None\<rparr>
             = Some ''home/hall''"
    by simp
  have n: "''home/hall'' \<noteq> []" by simp
  have d: "device_id example_device = 7" by (simp add: example_device_def)
  have s0: "run example_cfg [] (init 100) = init 100" by (simp add: run_def)
  have i: "loop_next_handle (init 100) = 0" "loop_time (init 100) = 100" by (simp_all add: init_def)
  show ?thesis
    using trigger_event_publishes_and_arms [OF c t n, of Trigger "init 100" "[]" 100]
      trigger_event_publishes_and_arms [OF c t n, of "OtherDeviceEventCode 1" "init 100" "[]" 100] c
    unfolding Let_def s0 i d
    by simp
qed

subsection \<open>Base unit properties and events\<close>

text \<open>
  C3. Let a member of \<^verbatim>\<open>BaseUnitState\<close> be equal to itself and to no other member. Then
  a change of the base unit's state property to a member publishes the raw value,
  retained, to the base unit topic, and then \<open>ha_state\<close>, retained, as \<open>disarmed\<close> for
  Disarm and Monitor, \<open>armed_home\<close> for Home, \<open>armed_away\<close> for Away, \<open>pending\<close> for
  AwayExitDelay and AwayEntryDelay, and nothing more for any other member. A value that
  equals none of these six members publishes the raw value only. A property whose name
  is none of state, is-connected, rom version, exit delay, entry delay and operation
  mode publishes nothing.
\<close>

theorem baseunit_state_publications:
  assumes "\<forall>st member. BaseUnitState_eq K (PBaseUnitState st) member = (st = member)"
  shows
  "publish_baseunit_property K cfg (BaseUnit_PROP_STATE K) (PBaseUnitState st) =
     Publish (baseunit cfg) (PBaseUnitState st) True #
     (case st of
        Disarm \<Rightarrow> [Publish (baseunit cfg @ ''/ha_state'') (PStr ''disarmed'') True]
      | Monitor \<Rightarrow> [Publish (baseunit cfg @ ''/ha_state'') (PStr ''disarmed'') True]
      | Home \<Rightarrow> [Publish (baseunit cfg @ ''/ha_state'') (PStr ''armed_home'') True]
      | Away \<Rightarrow> [Publish (baseunit cfg @ ''/ha_state'') (PStr ''armed_away'') True]
      | AwayExitDelay \<Rightarrow> [Publish (baseunit cfg @ ''/ha_state'') (PStr ''pending'') True]
      | AwayEntryDelay \<Rightarrow> [Publish (baseunit cfg @ ''/ha_state'') (PStr ''pending'') True]
      | OtherBaseUnitState n \<Rightarrow> []) \<and>
   ((\<forall>member \<in> {Disarm, Monitor, Home, Away, AwayExitDelay, AwayEntryDelay}.
        \<not> BaseUnitState_eq K value member) \<longrightarrow>
      publish_baseunit_property K cfg (BaseUnit_PROP_STATE K) value =
        [Publish (baseunit cfg) value True]) \<and>
   (name \<notin> {BaseUnit_PROP_STATE K, BaseUnit_PROP_IS_CONNECTED K, BaseUnit_PROP_ROM_VERSION K,
             BaseUnit_PROP_EXIT_DELAY K, BaseUnit_PROP_ENTRY_DELAY K,
             BaseUnit_PROP_OPERATION_MODE K} \<longrightarrow>
      publish_baseunit_property K cfg name value = [])"
proof (intro conjI impI)
  show "publish_baseunit_property K cfg (BaseUnit_PROP_STATE K) (PBaseUnitState st) =
     Publish (baseunit cfg) (PBaseUnitState st) True #
     (case st of
        Disarm \<Rightarrow> [Publish (baseunit cfg @ ''/ha_state'') (PStr ''disarmed'') True]
      | Monitor \<Rightarrow> [Publish (baseunit cfg @ ''/ha_state'') (PStr ''disarmed'') True]
      | Home \<Rightarrow> [Publish (baseunit cfg @ ''/ha_state'') (PStr ''armed_home'') True]
      | Away \<Rightarrow> [Publish (baseunit cfg @ ''/ha_state'') (PStr ''armed_away'') True]
      | AwayExitDelay \<Rightarrow> [Publish (baseunit cfg @ ''/ha_state'') (PStr ''pending'') True]
      | AwayEntryDelay \<Rightarrow> [Publish (baseunit cfg @ ''/ha_state'') (PStr ''pending'') True]
      | OtherBaseUnitState n \<Rightarrow> [])"
    using assms
    by (cases st) (simp_all add: publish_baseunit_property_def sub_topic_def TOPIC_HASTATE_def Let_def)
next
  assume "\<forall>member \<in> {Disarm, Monitor, Home, Away, AwayExitDelay, AwayEntryDelay}.
            \<not> BaseUnitState_eq K value member"
  then show "publish_baseunit_property K cfg (BaseUnit_PROP_STATE K) value =
               [Publish (baseunit cfg) value True]"
    by (simp add: publish_baseunit_property_def Let_def)
next
  assume "name \<notin> {BaseUnit_PROP_STATE K, BaseUnit_PROP_IS_CONNECTED K, BaseUnit_PROP_ROM_VERSION K,
             BaseUnit_PROP_EXIT_DELAY K, BaseUnit_PROP_ENTRY_DELAY K,
             BaseUnit_PROP_OPERATION_MODE K}"
  then show "publish_baseunit_property K cfg name value = []"
    by (simp add: publish_baseunit_property_def Let_def)
qed

text \<open>
  In the example environment the members are equal to themselves only, and the integer
  1, the value of Home there, is published as \<open>armed_home\<close> as well.
\<close>

theorem baseunit_state_publications_witness:
  "(\<forall>st member. BaseUnitState_eq example_env (PBaseUnitState st) member = (st = member)) \<and>
   \<not> BaseUnitState_eq example_env PNone Disarm \<and>
   \<not> BaseUnitState_eq example_env PNone Monitor \<and>
   \<not> BaseUnitState_eq example_env PNone Home \<and>
   \<not> BaseUnitState_eq example_env PNone Away \<and>
   \<not> BaseUnitState_eq example_env PNone AwayExitDelay \<and>
   \<not> BaseUnitState_eq example_env PNone AwayEntryDelay \<and>
   publish_baseunit_property example_env example_cfg ''state'' PNone =
     [Publish ''home/alarm'' PNone True] \<and>
   ''siren'' \<notin> {''state'', ''is_connected'', ''rom_version'', ''exit_delay'', ''entry_delay'',
                 ''operation_mode''} \<and>
   publish_baseunit_property example_env example_cfg ''siren'' (PBool True) = [] \<and>
   publish_baseunit_property example_env example_cfg ''state'' (PBaseUnitState Home) =
     [Publish ''home/alarm'' (PBaseUnitState Home) True,
      Publish ''home/alarm/ha_state'' (PStr ''armed_home'') True] \<and>
   publish_baseunit_property example_env example_cfg ''state'' (PInt 1) =
     [Publish ''home/alarm'' (PInt 1) True,
      Publish ''home/alarm/ha_state'' (PStr ''armed_home'') True]"
proof -
  have m: "\<forall>st member. BaseUnitState_eq example_env (PBaseUnitState st) member = (st = member)"
    by (simp add: example_env_def)
  have n: "\<forall>member \<in> {Disarm, Monitor, Home, Away, AwayExitDelay, AwayEntryDelay}.
             \<not> BaseUnitState_eq example_env PNone member"
    by (simp add: example_env_def)
  have s: "''siren'' \<notin> {BaseUnit_PROP_STATE example_env, BaseUnit_PROP_IS_CONNECTED example_env,
             BaseUnit_PROP_ROM_VERSION example_env, BaseUnit_PROP_EXIT_DELAY example_env,
             BaseUnit_PROP_ENTRY_DELAY example_env, BaseUnit_PROP_OPERATION_MODE example_env}"
    by (simp add: example_env_def)
  have i: "publish_baseunit_property example_env example_cfg ''state'' (PInt 1) =
     [Publish ''home/alarm'' (PInt 1) True,
      Publish ''home/alarm/ha_state'' (PStr ''armed_home'') True]"
    by (simp add: publish_baseunit_property_def example_env_def example_cfg_def
          example_state_value_def sub_topic_def TOPIC_HASTATE_def Let_def)
  note b = baseunit_state_publications [OF m, of example_cfg]
  have "publish_baseunit_property example_env example_cfg ''state'' PNone =
          [Publish ''home/alarm'' PNone True]"
    using b [of Home PNone "''siren''", THEN conjunct2, THEN conjunct1, THEN mp, OF n]
    by (simp add: example_env_def example_cfg_def)
  moreover have "publish_baseunit_property example_env example_cfg ''siren'' (PBool True) = []"
    using b [of Home "PBool True" "''siren''", THEN conjunct2, THEN conjunct2, THEN mp, OF s] .
  moreover have "publish_baseunit_property example_env example_cfg ''state'' (PBaseUnitState Home) =
     [Publish ''home/alarm'' (PBaseUnitState Home) True,
      Publish ''home/alarm/ha_state'' (PStr ''armed_home'') True]"
    using b [of Home PNone "''siren''", THEN conjunct1]
    by (simp add: example_env_def example_cfg_def)
  ultimately show ?thesis using m n i by simp
qed

text \<open>
  C4, as stated, fails: an event record whose qualifier is Event and whose event code is
  absent (or zero) publishes the full event only; nothing goes to \<open>event_code\<close>.
\<close>

theorem baseunit_event_without_code_counterexample:
  "cid_event_qualifier (example_contact_id None) = Inr Event \<and>
   baseunit_event example_cfg (example_contact_id None) =
     returns [Publish ''home/alarm/event''
                (PJsonDumps [(''event_qualifier'', PStr ''Event''),
                             (''event_category'', PStr ''Trouble'')]) False] \<and>
   cid_event_qualifier (example_contact_id (Some 0)) = Inr Event \<and>
   baseunit_event example_cfg (example_contact_id (Some 0)) =
     returns [Publish ''home/alarm/event''
                (PJsonDumps [(''event_qualifier'', PStr ''Event''),
                             (''event_category'', PStr ''Trouble'')]) False]"
  by (simp add: baseunit_event_def example_contact_id_def example_cfg_def code_truthy_def
        reading_def then_do_def returns_def)

text \<open>
  C4, amended. If reading \<^verbatim>\<open>as_dict()\<close> raises, nothing is published and the exception
  leaves the handler; if it returns, the full event is published first, not retained, to
  \<open>event\<close>. For a record whose event code and qualifier (and, when the qualifier is
  Event, category) are read without an exception as well, that is followed by: the event
  code, not retained, to
  \<open>event_code\<close> when the code is present and not zero and the qualifier is Event, or to
  \<open>restore_code\<close> when the code is present and not zero and the qualifier is Restore
  (with no event code, or the code zero, neither is published); then \<open>triggered\<close>,
  retained, to \<open>ha_state\<close> if the qualifier is Event and the category is Alarm. The
  handler then returns.
\<close>

theorem baseunit_event_publications:
  "(cid_as_dict contact_id = Inl e \<longrightarrow> baseunit_event cfg contact_id = raises e) \<and>
   (cid_as_dict contact_id = Inr event_data \<longrightarrow>
      (\<exists>rest. fst (baseunit_event cfg contact_id) =
                Publish (baseunit cfg @ ''/event'') (PJsonDumps event_data) False # rest)) \<and>
   (cid_as_dict contact_id = Inr event_data \<longrightarrow>
    cid_event_code contact_id = Inr event_code \<longrightarrow>
    cid_event_qualifier contact_id = Inr event_qualifier \<longrightarrow>
    (event_qualifier = Event \<longrightarrow> cid_event_category contact_id = Inr event_category) \<longrightarrow>
      baseunit_event cfg contact_id =
        returns
          ([Publish (baseunit cfg @ ''/event'') (PJsonDumps event_data) False] @
           (case event_code of
              None \<Rightarrow> []
            | Some n \<Rightarrow>
                if n = 0 then []
                else (case event_qualifier of
                        Event \<Rightarrow> [Publish (baseunit cfg @ ''/event_code'') (PInt n) False]
                      | Restore \<Rightarrow> [Publish (baseunit cfg @ ''/restore_code'') (PInt n) False]
                      | OtherEventQualifier q \<Rightarrow> [])) @
           (if event_qualifier = Event \<and> event_category = Alarm
            then [Publish (baseunit cfg @ ''/ha_state'') (PStr ''triggered'') True] else [])))"
proof (intro conjI impI)
  assume "cid_as_dict contact_id = Inl e"
  then show "baseunit_event cfg contact_id = raises e"
    by (simp add: baseunit_event_def reading_def)
next
  assume "cid_as_dict contact_id = Inr event_data"
  then show "\<exists>rest. fst (baseunit_event cfg contact_id) =
                Publish (baseunit cfg @ ''/event'') (PJsonDumps event_data) False # rest"
    by (simp add: baseunit_event_def reading_def then_do_def returns_def)
next
  assume "cid_as_dict contact_id = Inr event_data"
    "cid_event_code contact_id = Inr event_code"
    "cid_event_qualifier contact_id = Inr event_qualifier"
    "event_qualifier = Event \<longrightarrow> cid_event_category contact_id = Inr event_category"
  then show "baseunit_event cfg contact_id =
        returns
          ([Publish (baseunit cfg @ ''/event'') (PJsonDumps event_data) False] @
           (case event_code of
              None \<Rightarrow> []
            | Some n \<Rightarrow>
                if n = 0 then []
                else (case event_qualifier of
                        Event \<Rightarrow> [Publish (baseunit cfg @ ''/event_code'') (PInt n) False]
                      | Restore \<Rightarrow> [Publish (baseunit cfg @ ''/restore_code'') (PInt n) False]
                      | OtherEventQualifier q \<Rightarrow> [])) @
           (if event_qualifier = Event \<and> event_category = Alarm
            then [Publish (baseunit cfg @ ''/ha_state'') (PStr ''triggered'') True] else []))"
    by (cases event_qualifier; cases event_code)
       (simp_all add: baseunit_event_def reading_def then_do_def returns_def code_truthy_def
          code_value_def sub_topic_def TOPIC_HASTATE_def)
qed

theorem baseunit_event_publications_witness:
  "baseunit_event example_cfg
     \<lparr>cid_as_dict = Inr [], cid_event_code = Inr (Some 304), cid_event_qualifier = Inr Event,
      cid_event_category = Inr Alarm\<rparr> =
     returns [Publish ''home/alarm/event'' (PJsonDumps []) False,
              Publish ''home/alarm/event_code'' (PInt 304) False,
              Publish ''home/alarm/ha_state'' (PStr ''triggered'') True] \<and>
   baseunit_event example_cfg
     \<lparr>cid_as_dict = Inr [], cid_event_code = Inr (Some 304), cid_event_qualifier = Inr Restore,
      cid_event_category = Inl ValueError\<rparr> =
     returns [Publish ''home/alarm/event'' (PJsonDumps []) False,
              Publish ''home/alarm/restore_code'' (PInt 304) False] \<and>
   baseunit_event example_cfg
     \<lparr>cid_as_dict = Inl ValueError, cid_event_code = Inr (Some 304),
      cid_event_qualifier = Inr Event, cid_event_category = Inl ValueError\<rparr> =
     raises ValueError"
proof -
  have "baseunit_event example_cfg
     \<lparr>cid_as_dict = Inr [], cid_event_code = Inr (Some 304), cid_event_qualifier = Inr Event,
      cid_event_category = Inr Alarm\<rparr> =
     returns [Publish ''home/alarm/event'' (PJsonDumps []) False,
              Publish ''home/alarm/event_code'' (PInt 304) False,
              Publish ''home/alarm/ha_state'' (PStr ''triggered'') True]"
    using baseunit_event_publications [of
       "\<lparr>cid_as_dict = Inr [], cid_event_code = Inr (Some 304), cid_event_qualifier = Inr Event,
         cid_event_category = Inr Alarm\<rparr>" ValueError example_cfg "[]" "Some 304" Event Alarm,
       THEN conjunct2, THEN conjunct2]
    by (simp add: example_cfg_def)
  moreover have "baseunit_event example_cfg
     \<lparr>cid_as_dict = Inr [], cid_event_code = Inr (Some 304), cid_event_qualifier = Inr Restore,
      cid_event_category = Inl ValueError\<rparr> =
     returns [Publish ''home/alarm/event'' (PJsonDumps []) False,
              Publish ''home/alarm/restore_code'' (PInt 304) False]"
    using baseunit_event_publications [of
       "\<lparr>cid_as_dict = Inr [], cid_event_code = Inr (Some 304), cid_event_qualifier = Inr Restore,
         cid_event_category = Inl ValueError\<rparr>" ValueError example_cfg "[]" "Some 304" Restore Alarm,
       THEN conjunct2, THEN conjunct2]
    by (simp add: example_cfg_def)
  moreover have "baseunit_event example_cfg
     \<lparr>cid_as_dict = Inl ValueError, cid_event_code = Inr (Some 304),
      cid_event_qualifier = Inr Event, cid_event_category = Inl ValueError\<rparr> =
     raises ValueError"
    using baseunit_event_publications [of
       "\<lparr>cid_as_dict = Inl ValueError, cid_event_code = Inr (Some 304),
         cid_event_qualifier = Inr Event, cid_event_category = Inl ValueError\<rparr>"
       ValueError example_cfg "[]" "Some 304" Event Alarm, THEN conjunct1]
    by simp
  ultimately show ?thesis by simp
qed

subsection \<open>Device properties\<close>

text \<open>
  C5. For a device that is not a special device, a change of the is-closed property
  publishes, retained, to the device's own topic: for a DoorMagnet \<open>closed\<close> when the
  value is true and \<open>open\<close> when it is false; for any other device type \<open>off\<close>,
  whatever the value.
\<close>

theorem is_closed_publication:
  "\<not> is_special device \<longrightarrow>
     (dev_type device = DoorMagnet \<longrightarrow>
        publish_device_property K topic_parent device (Device_PROP_IS_CLOSED K) (PBool b) =
          returns [Publish topic_parent (POpenClosed (if b then Closed else Open)) True]) \<and>
     (dev_type device \<noteq> DoorMagnet \<longrightarrow>
        publish_device_property K topic_parent device (Device_PROP_IS_CLOSED K) value =
          returns [Publish topic_parent (POnOff Off) True]) \<and>
     (devices cfg (device_id device) = Some device_config \<longrightarrow>
      topic device_config = Some t \<longrightarrow> t \<noteq> [] \<longrightarrow>
        device_on_properties_changed K cfg device
          [\<lparr>change_name = Device_PROP_IS_CLOSED K, old_value = old, new_value = PBool b\<rparr>] =
        returns [Publish t (if dev_type device = DoorMagnet
                            then POpenClosed (if b then Closed else Open)
                            else POnOff Off) True]) \<and>
     async_publish_text (POpenClosed Open) = Some ''open'' \<and>
     async_publish_text (POpenClosed Closed) = Some ''closed'' \<and>
     async_publish_text (POnOff Off) = Some ''off''"
  by (simp add: publish_device_property_def OpenClosed_parse_value_def device_on_properties_changed_def
        truthy_def fmt_def then_do_def returns_def async_publish_text_def OpenClosed_str_def
        OnOff_str_def)

theorem is_closed_publication_witness:
  "\<not> is_special example_door \<and> dev_type example_door = DoorMagnet \<and>
   publish_device_property example_env ''home/door'' example_door ''is_closed'' (PBool True) =
     returns [Publish ''home/door'' (POpenClosed Closed) True] \<and>
   \<not> is_special example_device \<and> dev_type example_device \<noteq> DoorMagnet \<and>
   publish_device_property example_env ''home/hall'' example_device ''is_closed'' (PBool True) =
     returns [Publish ''home/hall'' (POnOff Off) True] \<and>
   devices example_cfg (device_id example_door) =
     Some \<lparr>topic = Some ''home/door'', ha_name = Some ''Door'', auto_reset_interval = Some 5\<rparr> \<and>
   ''home/door'' \<noteq> [] \<and>
   device_on_properties_changed example_env example_cfg example_door
     [\<lparr>change_name = ''is_closed'', old_value = PBool True, new_value = PBool False\<rparr>] =
     returns [Publish ''home/door'' (POpenClosed Open) True]"
  using is_closed_publication [of example_door example_env "''home/door''" True "PBool True"
          example_cfg "\<lparr>topic = Some ''home/door'', ha_name = Some ''Door'', auto_reset_interval = Some 5\<rparr>"
          "''home/door''" "PBool True"]
    is_closed_publication [of example_door example_env "''home/door''" False "PBool True"
          example_cfg "\<lparr>topic = Some ''home/door'', ha_name = Some ''Door'', auto_reset_interval = Some 5\<rparr>"
          "''home/door''" "PBool True"]
    is_closed_publication [of example_device example_env "''home/hall''" True "PBool True"
          example_cfg "\<lparr>topic = Some ''home/door'', ha_name = Some ''Door'', auto_reset_interval = Some 5\<rparr>"
          "''home/door''" "PBool True"]
  by (simp add: example_door_def example_device_def example_env_def example_cfg_def)

lemma for_each_returns:
  "for_each (\<lambda>x. returns (g x)) xs = returns (concat (map g xs))"
  by (induction xs) (simp_all add: then_do_def returns_def)

lemma publish_flags_int:
  "publish_flags topic_parent name flags (PInt v) =
     returns (map (\<lambda>item. Publish (topic_parent @ ''/'' @ name @ ''/'' @ fst item)
                            (PBool (v AND snd item \<noteq> 0)) True) flags)"
proof -
  have "publish_flags topic_parent name flags (PInt v) =
     for_each (\<lambda>item. returns [Publish (sub_topic3 topic_parent name (fst item))
                                   (PBool (v AND snd item \<noteq> 0)) True]) flags"
    by (simp add: publish_flags_def py_and_def)
  also have "\<dots> = returns (concat (map (\<lambda>item. [Publish (sub_topic3 topic_parent name (fst item))
                                   (PBool (v AND snd item \<noteq> 0)) True]) flags))"
    by (rule for_each_returns)
  finally show ?thesis by (simp add: sub_topic3_def concat_map_singleton)
qed

text \<open>
  C6. When the property names of the driver are distinct, a change of one of the four
  flag properties to the integer \<open>v\<close> publishes, retained, exactly one boolean for each
  member of the property's flag enum, in the enum's order, to
  \<open>topic/property/member\<close>; the boolean tells whether \<open>v\<close> and the member's value have
  a bit in common, which for a member that is the single bit \<open>k\<close> is bit \<open>k\<close> of \<open>v\<close>.
  Nothing else is published.
\<close>

theorem flag_publications:
  assumes "distinct [Device_PROP_IS_CLOSED K, SpecialDevice_PROP_CURRENT_READING K,
                     Device_PROP_CATEGORY K, Device_PROP_CHARACTERISTICS K,
                     Device_PROP_ENABLE_STATUS K, Device_PROP_SWITCHES K,
                     SpecialDevice_PROP_SPECIAL_STATUS K]"
    and "(name, flags) \<in> {(Device_PROP_CHARACTERISTICS K, DCFlags K),
                            (Device_PROP_ENABLE_STATUS K, ESFlags K),
                            (Device_PROP_SWITCHES K, SwitchFlags K),
                            (SpecialDevice_PROP_SPECIAL_STATUS K, SSFlags K)}"
  shows "publish_device_property K topic_parent device name (PInt v) =
           returns (map (\<lambda>item. Publish (topic_parent @ ''/'' @ name @ ''/'' @ fst item)
                                  (PBool (v AND snd item \<noteq> 0)) True) flags) \<and>
         (\<forall>item \<in> set flags. \<forall>k. snd item = 2 ^ k \<longrightarrow> (v AND snd item \<noteq> 0) = bit v k)"
proof
  from assms(1) have ne:
    "Device_PROP_CHARACTERISTICS K \<noteq> Device_PROP_IS_CLOSED K"
    "Device_PROP_CHARACTERISTICS K \<noteq> SpecialDevice_PROP_CURRENT_READING K"
    "Device_PROP_CHARACTERISTICS K \<noteq> Device_PROP_CATEGORY K"
    "Device_PROP_ENABLE_STATUS K \<noteq> Device_PROP_IS_CLOSED K"
    "Device_PROP_ENABLE_STATUS K \<noteq> SpecialDevice_PROP_CURRENT_READING K"
    "Device_PROP_ENABLE_STATUS K \<noteq> Device_PROP_CATEGORY K"
    "Device_PROP_ENABLE_STATUS K \<noteq> Device_PROP_CHARACTERISTICS K"
    "Device_PROP_SWITCHES K \<noteq> Device_PROP_IS_CLOSED K"
    "Device_PROP_SWITCHES K \<noteq> SpecialDevice_PROP_CURRENT_READING K"
    "Device_PROP_SWITCHES K \<noteq> Device_PROP_CATEGORY K"
    "Device_PROP_SWITCHES K \<noteq> Device_PROP_CHARACTERISTICS K"
    "Device_PROP_SWITCHES K \<noteq> Device_PROP_ENABLE_STATUS K"
    "SpecialDevice_PROP_SPECIAL_STATUS K \<noteq> Device_PROP_IS_CLOSED K"
    "SpecialDevice_PROP_SPECIAL_STATUS K \<noteq> SpecialDevice_PROP_CURRENT_READING K"
    "SpecialDevice_PROP_SPECIAL_STATUS K \<noteq> Device_PROP_CATEGORY K"
    "SpecialDevice_PROP_SPECIAL_STATUS K \<noteq> Device_PROP_CHARACTERISTICS K"
    "SpecialDevice_PROP_SPECIAL_STATUS K \<noteq> Device_PROP_ENABLE_STATUS K"
    "SpecialDevice_PROP_SPECIAL_STATUS K \<noteq> Device_PROP_SWITCHES K"
    by auto
  from assms(2) consider
      "name = Device_PROP_CHARACTERISTICS K" "flags = DCFlags K"
    | "name = Device_PROP_ENABLE_STATUS K" "flags = ESFlags K"
    | "name = Device_PROP_SWITCHES K" "flags = SwitchFlags K"
    | "name = SpecialDevice_PROP_SPECIAL_STATUS K" "flags = SSFlags K"
    by auto
  then have "publish_device_property K topic_parent device name (PInt v) =
               publish_flags topic_parent name flags (PInt v)"
  proof cases
    case 1
    with ne show ?thesis by (simp add: publish_device_property_def)
  next
    case 2
    with ne show ?thesis by (simp add: publish_device_property_def)
  next
    case 3
    with ne show ?thesis by (simp add: publish_device_property_def)
  next
    case 4
    with ne show ?thesis by (simp add: publish_device_property_def)
  qed
  then show "publish_device_property K topic_parent device name (PInt v) =
           returns (map (\<lambda>item. Publish (topic_parent @ ''/'' @ name @ ''/'' @ fst item)
                                  (PBool (v AND snd item \<noteq> 0)) True) flags)"
    by (simp only: publish_flags_int)
  show "\<forall>item \<in> set flags. \<forall>k. snd item = 2 ^ k \<longrightarrow> (v AND snd item \<noteq> 0) = bit v k"
  proof (intro ballI allI impI)
    fix item :: "string \<times> int" and k :: nat
    assume "snd item = 2 ^ k"
    then show "(v AND snd item \<noteq> 0) = bit v k"
      by (simp only: and_exp_eq_0_iff_not_bit) simp
  qed
qed

theorem flag_publications_witness:
  "distinct [''is_closed'', ''current_reading'', ''category'', ''characteristics'',
             ''enable_status'', ''switches'', ''special_status''] \<and>
   DCFlags example_env = [(''A'', 1), (''B'', 2), (''C'', 4)] \<and>
   publish_device_property example_env ''home/hall'' example_device ''characteristics'' (PInt 5) =
     returns [Publish ''home/hall/characteristics/A'' (PBool True) True,
              Publish ''home/hall/characteristics/B'' (PBool False) True,
              Publish ''home/hall/characteristics/C'' (PBool True) True] \<and>
   (''C'', 4) \<in> set [(''A'', 1), (''B'', 2), (''C'', 4 :: int)] \<and> (4 :: int) = 2 ^ 2 \<and>
   ((5 :: int) AND 4 \<noteq> 0) = bit (5 :: int) 2"
proof -
  have d: "distinct [Device_PROP_IS_CLOSED example_env, SpecialDevice_PROP_CURRENT_READING example_env,
                     Device_PROP_CATEGORY example_env, Device_PROP_CHARACTERISTICS example_env,
                     Device_PROP_ENABLE_STATUS example_env, Device_PROP_SWITCHES example_env,
                     SpecialDevice_PROP_SPECIAL_STATUS example_env]"
    by (simp add: example_env_def)
  have m: "(''characteristics'', [(''A'', 1), (''B'', 2), (''C'', 4)]) \<in>
             {(Device_PROP_CHARACTERISTICS example_env, DCFlags example_env),
              (Device_PROP_ENABLE_STATUS example_env, ESFlags example_env),
              (Device_PROP_SWITCHES example_env, SwitchFlags example_env),
              (SpecialDevice_PROP_SPECIAL_STATUS example_env, SSFlags example_env)}"
    by (simp add: example_env_def)
  have a: "(5::int) AND 1 = 1" "(5::int) AND 2 = 0" "(5::int) AND 4 = 4"
    by (simp_all add: and_int.rec [of 5] and_int.rec [of 2])
  have c: "(''C'', 4) \<in> set [(''A'', 1), (''B'', 2), (''C'', 4 :: int)]" by simp
  have p: "snd (''C'', 4 :: int) = 2 ^ 2" by simp
  have b: "((5 :: int) AND snd (''C'', 4 :: int) \<noteq> 0) = bit (5 :: int) 2"
    using flag_publications [OF d m, of "''home/hall''" example_device 5, THEN conjunct2,
            THEN bspec, OF c, THEN spec, THEN mp, OF p] .
  show ?thesis
    using flag_publications [OF d m, of "''home/hall''" example_device 5, THEN conjunct1] a b c
    by (simp add: example_env_def)
qed

subsection \<open>Discovery documents and added devices\<close>

lemma format_x_nonempty: "format_x n \<noteq> []"
  by (subst format_x.simps) simp

lemma format_x_length: "0 < k \<Longrightarrow> n < 16 ^ k \<Longrightarrow> length (format_x n) \<le> k"
proof (induction k arbitrary: n)
  case 0
  then show ?case by simp
next
  case (Suc k)
  show ?case
  proof (cases "n < 16")
    case True
    then show ?thesis by (subst format_x.simps) simp
  next
    case False
    with Suc.prems have k: "0 < k" by (cases k) auto
    from Suc.prems have "n div 16 < 16 ^ k"
      by (simp add: less_mult_imp_div_less mult.commute)
    with k have "length (format_x (n div 16)) \<le> k" by (rule Suc.IH)
    with False show ?thesis by (subst format_x.simps) simp
  qed
qed

lemma hex_digit_in: "d < 16 \<Longrightarrow> hex_digit d \<in> set ''0123456789abcdef''"
  unfolding hex_digit_def by (rule nth_mem) simp

lemma format_x_digits: "set (format_x n) \<subseteq> set ''0123456789abcdef''"
proof (induction n rule: format_x.induct)
  case (1 n)
  show ?case
  proof (cases "n < 16")
    case True
    then show ?thesis using hex_digit_in [of n] by (subst format_x.simps) simp
  next
    case False
    then show ?thesis
      using "1" hex_digit_in [of "n mod 16"] by (subst format_x.simps) simp
  qed
qed

lemma format_06x_six:
  assumes "n < 16 ^ 6"
  shows "length (format_06x n) = 6" and "set (format_06x n) \<subseteq> set ''0123456789abcdef''"
proof -
  have "length (format_x n) \<le> 6" using assms by (intro format_x_length) simp_all
  then show "length (format_06x n) = 6" by (simp add: format_06x_def)
  show "set (format_06x n) \<subseteq> set ''0123456789abcdef''"
    unfolding format_06x_def using format_x_digits [of n] by auto
qed

lemma hex_digit_value_digit: "d < 16 \<Longrightarrow> hex_digit_value (hex_digit d) = d"
proof -
  assume "d < 16"
  then have "d \<in> {0, 1, 2, 3, 4, 5, 6, 7, 8, 9, 10, 11, 12, 13, 14, 15}" by simp arith
  then show ?thesis
    by (auto simp: hex_digit_value_def hex_digit_def)
qed

lemma hex_value_snoc: "hex_value (s @ [c]) = 16 * hex_value s + hex_digit_value c"
  by (simp add: hex_value_def)

lemma hex_value_format_x: "hex_value (format_x n) = n"
proof (induction n rule: format_x.induct)
  case (1 n)
  show ?case
  proof (cases "n < 16")
    case True
    then show ?thesis
      by (subst format_x.simps) (simp add: hex_value_def hex_digit_value_digit)
  next
    case False
    with "1" have "hex_value (format_x (n div 16)) = n div 16" by simp
    with False show ?thesis
      by (subst format_x.simps) (simp add: hex_value_snoc hex_digit_value_digit)
  qed
qed

lemma hex_value_zeros: "hex_value (replicate k (CHR ''0'') @ s) = hex_value s"
proof -
  have z: "hex_digit_value (CHR ''0'') = 0" by (simp add: hex_digit_value_def)
  have "foldl (\<lambda>a c. 16 * a + hex_digit_value c) 0 (replicate k (CHR ''0'')) = 0"
    by (induction k) (simp_all add: z)
  then show ?thesis by (simp add: hex_value_def)
qed

lemma hex_value_format_06x: "hex_value (format_06x n) = n"
  by (simp add: format_06x_def hex_value_zeros hex_value_format_x)

lemma publish_ha_device_config_cases:
  "(\<exists>n. dev_type device = OtherDeviceType n) \<or>
   (\<exists>ha_platform message.
      publish_ha_device_config K cfg device device_config =
        publish_config cfg ha_platform (PROJECT_NAME K @ ''_'' @ format_06x (device_id device)) message \<and>
      ha_platform \<in> {HA_PLATFORM_BINARY_SENSOR, HA_PLATFORM_SENSOR} \<and>
      map_of message HA_UNIQUE_ID =
        Some (PStr (PROJECT_NAME K @ ''_'' @ format_06x (device_id device))))"
proof (cases "dev_type device")
  case (OtherDeviceType n)
  then show ?thesis by simp
qed ((rule disjI2, simp add: publish_ha_device_config_def Let_def, intro exI conjI, rule refl,
      simp, simp add: on_off_payloads_def dict_set_def update_conv' HA_UNIQUE_ID_def
       HA_PAYLOAD_OFF_def HA_PAYLOAD_ON_def HA_DEVICE_CLASS_def HA_UNIT_OF_MEASUREMENT_def
       HA_NAME_def HA_STATE_TOPIC_def HA_AVAILABILITY_TOPIC_def HA_PAYLOAD_AVAILABLE_def
       HA_PAYLOAD_NOT_AVAILABLE_def)+)

text \<open>
  C9. For a device whose type is none of those the discovery table names, building the
  discovery document logs a warning, publishes nothing and returns without an exception.
  For a device type of the table, exactly one document is published, retained, to
  \<open>prefix/platform/uniqueId/config\<close>, where the platform is \<open>binary_sensor\<close> or
  \<open>sensor\<close> and the unique id, also the document's \<open>unique_id\<close>, is the project name,
  an underscore and the device id in the format \<^verbatim>\<open>{:06x}\<close>: a hexadecimal numeral of
  the id, of six lower-case digits when the id is below \<open>16 ^ 6\<close>.
\<close>

theorem discovery_document:
  "(dev_type device = OtherDeviceType n \<longrightarrow>
      publish_ha_device_config K cfg device device_config = returns [Log WARNING DeviceTypeSkipped]) \<and>
   ((\<forall>n. dev_type device \<noteq> OtherDeviceType n) \<longrightarrow>
      (\<exists>ha_platform message.
         publish_ha_device_config K cfg device device_config =
           returns [Publish (fmt (ha_discovery_prefix cfg) @ ''/'' @ ha_platform @ ''/'' @
                             (PROJECT_NAME K @ ''_'' @ format_06x (device_id device)) @ ''/config'')
                      (PJsonDumps message) True] \<and>
         ha_platform \<in> {''binary_sensor'', ''sensor''} \<and>
         map_of message ''unique_id'' =
           Some (PStr (PROJECT_NAME K @ ''_'' @ format_06x (device_id device))))) \<and>
   hex_value (format_06x (device_id device)) = device_id device \<and>
   (device_id device < 16 ^ 6 \<longrightarrow>
      length (format_06x (device_id device)) = 6 \<and>
      set (format_06x (device_id device)) \<subseteq> set ''0123456789abcdef'')"
proof (intro conjI impI)
  show "hex_value (format_06x (device_id device)) = device_id device"
    by (rule hex_value_format_06x)
next
  assume "dev_type device = OtherDeviceType n"
  then show "publish_ha_device_config K cfg device device_config = returns [Log WARNING DeviceTypeSkipped]"
    by (simp add: publish_ha_device_config_def Let_def)
next
  assume "\<forall>n. dev_type device \<noteq> OtherDeviceType n"
  with publish_ha_device_config_cases [of device K cfg device_config]
  obtain ha_platform message where
    "publish_ha_device_config K cfg device device_config =
        publish_config cfg ha_platform (PROJECT_NAME K @ ''_'' @ format_06x (device_id device)) message"
    "ha_platform \<in> {HA_PLATFORM_BINARY_SENSOR, HA_PLATFORM_SENSOR}"
    "map_of message HA_UNIQUE_ID =
        Some (PStr (PROJECT_NAME K @ ''_'' @ format_06x (device_id device)))"
    by blast
  then show "\<exists>ha_platform message.
         publish_ha_device_config K cfg device device_config =
           returns [Publish (fmt (ha_discovery_prefix cfg) @ ''/'' @ ha_platform @ ''/'' @
                             (PROJECT_NAME K @ ''_'' @ format_06x (device_id device)) @ ''/config'')
                      (PJsonDumps message) True] \<and>
         ha_platform \<in> {''binary_sensor'', ''sensor''} \<and>
         map_of message ''unique_id'' =
           Some (PStr (PROJECT_NAME K @ ''_'' @ format_06x (device_id device)))"
    by (intro exI [of _ ha_platform] exI [of _ message])
       (simp add: publish_config_def HA_PLATFORM_BINARY_SENSOR_def HA_PLATFORM_SENSOR_def
          HA_UNIQUE_ID_def)
next
  assume "device_id device < 16 ^ 6"
  then show "length (format_06x (device_id device)) = 6"
    and "set (format_06x (device_id device)) \<subseteq> set ''0123456789abcdef''"
    by (rule format_06x_six)+
qed

lemma format_06x_7: "format_06x 7 = ''000007''"
  by code_simp

theorem discovery_document_witness:
  "dev_type example_keypad = OtherDeviceType 1 \<and>
   publish_ha_device_config example_env example_cfg example_keypad
     \<lparr>topic = Some ''home/keypad'', ha_name = Some ''Keypad'', auto_reset_interval = None\<rparr> =
     returns [Log WARNING DeviceTypeSkipped] \<and>
   (\<forall>n. dev_type example_device \<noteq> OtherDeviceType n) \<and>
   device_id example_device < 16 ^ 6 \<and>
   length (format_06x (device_id example_device)) = 6 \<and>
   (\<exists>message.
      publish_ha_device_config example_env example_cfg example_device
        \<lparr>topic = Some ''home/hall'', ha_name = Some ''Hall'', auto_reset_interval = None\<rparr> =
      returns [Publish ''homeassistant/binary_sensor/lifesospy_mqtt_000007/config''
                 (PJsonDumps message) True])"
proof -
  have k: "dev_type example_keypad = OtherDeviceType 1" by (simp add: example_keypad_def)
  have d: "\<forall>n. dev_type example_device \<noteq> OtherDeviceType n" by (simp add: example_device_def)
  have i: "device_id example_device < 16 ^ 6" by (simp add: example_device_def)
  have p: "publish_ha_device_config example_env example_cfg example_device
        \<lparr>topic = Some ''home/hall'', ha_name = Some ''Hall'', auto_reset_interval = None\<rparr> =
      publish_config example_cfg ''binary_sensor'' ''lifesospy_mqtt_000007''
        (on_off_payloads (dict_set HA_DEVICE_CLASS (PStr HA_DC_MOTION)
            [(HA_NAME, PStr ''Hall''),
             (HA_UNIQUE_ID, PStr ''lifesospy_mqtt_000007''),
             (HA_STATE_TOPIC, PStr ''home/hall''),
             (HA_AVAILABILITY_TOPIC, PStr ''home/alarm/is_connected''),
             (HA_PAYLOAD_AVAILABLE, PStr ''True''),
             (HA_PAYLOAD_NOT_AVAILABLE, PStr ''False'')]))"
    by (simp add: publish_ha_device_config_def Let_def example_device_def example_env_def
          example_cfg_def format_06x_7 opt_str_def sub_topic_def HA_PLATFORM_BINARY_SENSOR_def)
  from discovery_document [of example_keypad 1 example_env example_cfg
          "\<lparr>topic = Some ''home/keypad'', ha_name = Some ''Keypad'', auto_reset_interval = None\<rparr>",
          THEN conjunct1, rule_format, OF k]
  have w: "publish_ha_device_config example_env example_cfg example_keypad
     \<lparr>topic = Some ''home/keypad'', ha_name = Some ''Keypad'', auto_reset_interval = None\<rparr> =
     returns [Log WARNING DeviceTypeSkipped]" .
  from discovery_document [of example_device 0 example_env example_cfg
          "\<lparr>topic = Some ''home/hall'', ha_name = Some ''Hall'', auto_reset_interval = None\<rparr>",
          THEN conjunct2, THEN conjunct2, THEN conjunct2, rule_format, OF i]
  have l: "length (format_06x (device_id example_device)) = 6" by simp
  from discovery_document [of example_device 0 example_env example_cfg
          "\<lparr>topic = Some ''home/hall'', ha_name = Some ''Hall'', auto_reset_interval = None\<rparr>",
          THEN conjunct2, THEN conjunct1, THEN mp, OF d]
  have e: "\<exists>message.
      publish_ha_device_config example_env example_cfg example_device
        \<lparr>topic = Some ''home/hall'', ha_name = Some ''Hall'', auto_reset_interval = None\<rparr> =
      returns [Publish ''homeassistant/binary_sensor/lifesospy_mqtt_000007/config''
                 (PJsonDumps message) True]"
    unfolding p by (auto simp: publish_config_def returns_def example_cfg_def fmt_def)
  from k w d i l e show ?thesis by blast
qed

text \<open>
  C10. When the discovery prefix is truthy and the config has no entry for the device's
  id, the device-added handler attaches both callbacks and then raises
  \<^verbatim>\<open>AttributeError\<close>, having published nothing. Whenever the handler returns without an
  exception, the config has an entry for the id or the discovery prefix is not truthy.
\<close>

theorem device_added_without_config:
  "(truthy (ha_discovery_prefix cfg) \<longrightarrow> devices cfg (device_id device) = None \<longrightarrow>
      baseunit_device_added K cfg device =
        (device\<lparr>on_event := Some device_on_event_callback,
                on_properties_changed := Some device_on_properties_changed_callback\<rparr>,
         ([], Some AttributeError))) \<and>
   (snd (snd (baseunit_device_added K cfg device)) = None \<longrightarrow>
      devices cfg (device_id device) \<noteq> None \<or> \<not> truthy (ha_discovery_prefix cfg))"
proof (cases "devices cfg (device_id device)")
  case None
  then show ?thesis
    by (simp add: baseunit_device_added_def Let_def returns_def raises_def then_do_def)
next
  case (Some dc)
  then show ?thesis by simp
qed

theorem device_added_without_config_witness:
  "truthy (ha_discovery_prefix example_cfg) \<and> devices example_cfg (device_id example_keypad) = None \<and>
   baseunit_device_added example_env example_cfg example_keypad =
     (example_keypad\<lparr>on_event := Some device_on_event_callback,
                     on_properties_changed := Some device_on_properties_changed_callback\<rparr>,
      ([], Some AttributeError)) \<and>
   snd (snd (baseunit_device_added example_env (example_cfg\<lparr>ha_discovery_prefix := None\<rparr>)
               example_keypad)) = None \<and>
   \<not> truthy (ha_discovery_prefix (example_cfg\<lparr>ha_discovery_prefix := None\<rparr>))"
proof -
  have t: "truthy (ha_discovery_prefix example_cfg)" by (simp add: example_cfg_def truthy_def)
  have n: "devices example_cfg (device_id example_keypad) = None"
    by (simp add: example_cfg_def example_keypad_def)
  have r: "snd (snd (baseunit_device_added example_env (example_cfg\<lparr>ha_discovery_prefix := None\<rparr>)
               example_keypad)) = None"
    by (simp add: baseunit_device_added_def Let_def example_cfg_def example_keypad_def truthy_def
          returns_def then_do_def)
  have n': "devices (example_cfg\<lparr>ha_discovery_prefix := None\<rparr>) (device_id example_keypad) = None"
    by (simp add: example_cfg_def example_keypad_def)
  from device_added_without_config [of example_cfg example_keypad example_env,
         THEN conjunct1, rule_format, OF t n]
    device_added_without_config [of "example_cfg\<lparr>ha_discovery_prefix := None\<rparr>" example_keypad
         example_env, THEN conjunct2, rule_format, OF r] t n n' r
  show ?thesis by simp
qed

subsection \<open>Inbound commands\<close>

lemma decode_Inr: "decode data = Inr text \<Longrightarrow> text = data \<and> utf8_valid data"
  by (simp add: decode_def split: if_splits)

lemma decode_data_cases:
  "decode_data data =
     (if data = [] then Inr None
      else if utf8_valid data then Inr (Some data) else Inl UnicodeDecodeError)"
  by (simp add: decode_data_def decode_def)

lemma bad_utf8_invalid: "\<not> utf8_valid bad_utf8" "bad_utf8 \<noteq> []"
  by (simp_all add: bad_utf8_def)

lemma switch_entries_topic:
  assumes "st \<in> set (concat (map (\<lambda>switch_number.
                    case map_of (switches cfg) switch_number of
                      None \<Rightarrow> []
                    | Some switch_config \<Rightarrow>
                        if truthy (switch_topic switch_config) then
                          [\<lparr>st_topic = sub_topic (fmt (switch_topic switch_config)) TOPIC_SET,
                            st_on_message = handler_on_message_switch,
                            st_args = ArgsSwitch switch_number\<rparr>]
                        else [])
                 (map fst (switches cfg))))"
  shows "\<exists>e \<in> set (switches cfg). \<exists>t. switch_topic (snd e) = Some t \<and> st_topic st = t @ ''/set''"
proof -
  from assms obtain n where "st \<in> set (case map_of (switches cfg) n of
                      None \<Rightarrow> []
                    | Some switch_config \<Rightarrow>
                        if truthy (switch_topic switch_config) then
                          [\<lparr>st_topic = sub_topic (fmt (switch_topic switch_config)) TOPIC_SET,
                            st_on_message = handler_on_message_switch,
                            st_args = ArgsSwitch n\<rparr>]
                        else [])"
    by auto
  then obtain sc where sc: "map_of (switches cfg) n = Some sc"
    and t: "truthy (switch_topic sc)"
    and st: "st_topic st = sub_topic (fmt (switch_topic sc)) TOPIC_SET"
    by (cases "map_of (switches cfg) n") (auto split: if_splits)
  from sc have "(n, sc) \<in> set (switches cfg)" by (rule map_of_SomeD)
  moreover from t obtain t' where "switch_topic sc = Some t'"
    by (auto simp: truthy_def split: option.splits)
  ultimately show ?thesis
    using st by (force simp: sub_topic_def TOPIC_SET_def fmt_def)
qed

lemma datetime_route:
  assumes "BaseUnit_PROP_OPERATION_MODE K \<noteq> ''datetime''"
    and "\<forall>e \<in> set (switches cfg). switch_topic (snd e) \<noteq> Some (baseunit cfg @ ''/datetime'')"
  shows "subscribetopics_lookup K cfg (baseunit cfg @ ''/datetime/set'') =
           Some \<lparr>st_topic = baseunit cfg @ ''/datetime/set'',
                 st_on_message = handler_on_message_set_datetime, st_args = ArgsNone\<rparr>"
proof -
  define S where "S = concat (map (\<lambda>switch_number.
                    case map_of (switches cfg) switch_number of
                      None \<Rightarrow> []
                    | Some switch_config \<Rightarrow>
                        if truthy (switch_topic switch_config) then
                          [\<lparr>st_topic = sub_topic (fmt (switch_topic switch_config)) TOPIC_SET,
                            st_on_message = handler_on_message_switch,
                            st_args = ArgsSwitch switch_number\<rparr>]
                        else [])
                 (map fst (switches cfg)))"
  have no: "baseunit cfg @ ''/datetime/set'' \<notin> st_topic ` set S"
  proof
    assume "baseunit cfg @ ''/datetime/set'' \<in> st_topic ` set S"
    then obtain st where "st \<in> set S" "st_topic st = baseunit cfg @ ''/datetime/set''" by auto
    with switch_entries_topic [of st cfg] obtain e t where
      e: "e \<in> set (switches cfg)" "switch_topic (snd e) = Some t"
      and "t @ ''/set'' = baseunit cfg @ ''/datetime/set''"
      unfolding S_def by auto
    then have "t @ ''/set'' = (baseunit cfg @ ''/datetime'') @ ''/set''" by simp
    then have "t = baseunit cfg @ ''/datetime''" by (simp only: append_same_eq)
    with e assms(2) show False by auto
  qed
  have "map_of (rev (map (\<lambda>st. (st_topic st, st)) S)) (baseunit cfg @ ''/datetime/set'') = None"
    using no by (simp add: map_of_eq_None_iff image_image)
  moreover have "sub_topic3 (baseunit cfg) (BaseUnit_PROP_OPERATION_MODE K) TOPIC_SET \<noteq>
                 baseunit cfg @ ''/datetime/set''"
  proof
    assume "sub_topic3 (baseunit cfg) (BaseUnit_PROP_OPERATION_MODE K) TOPIC_SET =
                 baseunit cfg @ ''/datetime/set''"
    then have "BaseUnit_PROP_OPERATION_MODE K @ ''/set'' = ''datetime'' @ ''/set''"
      by (simp add: sub_topic3_def TOPIC_SET_def)
    then have "BaseUnit_PROP_OPERATION_MODE K = ''datetime''" by (simp only: append_same_eq)
    with assms(1) show False by simp
  qed
  ultimately show ?thesis
    unfolding subscribetopics_lookup_def subscribetopics_def S_def [symmetric]
    by (simp add: map_add_def sub_topic3_def TOPIC_DATETIME_def TOPIC_SET_def)
qed

lemma utf8_valid_examples:
  "utf8_valid ''2018-06-01 12:00:00''" "utf8_valid ''tomorrow''"
  by code_simp+

lemma set_datetime_handler_cases:
  "on_message_set_datetime K st message =
     (if msg_data message = [] then returns [CreateTask (async_set_datetime None)]
      else if utf8_valid (msg_data message) then raises AttributeError
      else raises UnicodeDecodeError)"
  by (simp add: on_message_set_datetime_def decode_data_cases truthy_def dateutil_parser_def)

lemma async_loop_set_datetime:
  assumes "subscribetopics_lookup K cfg (msg_topic message) = Some st"
    and "st_on_message st = handler_on_message_set_datetime"
  shows "async_loop K cfg False (Delivered message # rest) =
           (if msg_data message = [] then [CreateTask (async_set_datetime None)]
            else [Log ERROR ExceptionProcessingMessage]) @
           async_loop K cfg False rest"
  using assms
  by (simp add: process_message_def call_on_message_def set_datetime_handler_cases
        returns_def raises_def)

text \<open>
  C7 is not what the code does: the message with the payload \<open>2018-06-01 12:00:00\<close> on
  \<open>home/alarm/datetime/set\<close> is routed to the handler, which raises \<^verbatim>\<open>AttributeError\<close>
  at the lookup \<^verbatim>\<open>dateutil.parser\<close> and creates no driver task, so nothing is parsed or
  forwarded. The rest of the claim holds there: the dispatch loop logs the exception as
  an error and goes on, and the empty payload that follows sets the date and time with
  \<^verbatim>\<open>None\<close>.
\<close>

theorem set_datetime_parser_lookup_fails:
  "msg_data (datetime_message ''2018-06-01 12:00:00'') \<noteq> [] \<and>
   utf8_valid (msg_data (datetime_message ''2018-06-01 12:00:00'')) \<and>
   on_message_set_datetime example_env datetime_st (datetime_message ''2018-06-01 12:00:00'') =
     ([], Some AttributeError) \<and>
   on_message_set_datetime example_env datetime_st (datetime_message []) =
     ([CreateTask (async_set_datetime None)], None) \<and>
   subscribetopics_lookup example_env example_cfg ''home/alarm/datetime/set'' = Some datetime_st \<and>
   async_loop example_env example_cfg False
     [Delivered (datetime_message ''2018-06-01 12:00:00''), Delivered (datetime_message [])] =
     [Log ERROR ExceptionProcessingMessage, CreateTask (async_set_datetime None)]"
proof -
  have r1: "BaseUnit_PROP_OPERATION_MODE example_env \<noteq> ''datetime''"
    by (simp add: example_env_def)
  have r2: "\<forall>e \<in> set (switches example_cfg).
              switch_topic (snd e) \<noteq> Some (baseunit example_cfg @ ''/datetime'')"
    by (simp add: example_cfg_def)
  have l: "subscribetopics_lookup example_env example_cfg ''home/alarm/datetime/set'' = Some datetime_st"
    using datetime_route [OF r1 r2] by (simp add: example_cfg_def datetime_st_def)
  have t: "msg_topic (datetime_message data) = ''home/alarm/datetime/set''" for data
    by (simp add: datetime_message_def)
  have s: "st_on_message datetime_st = handler_on_message_set_datetime"
    by (simp add: datetime_st_def)
  have d: "msg_data (datetime_message ''2018-06-01 12:00:00'') \<noteq> []"
    "utf8_valid (msg_data (datetime_message ''2018-06-01 12:00:00''))"
    "msg_data (datetime_message []) = []"
    by (simp_all add: datetime_message_def utf8_valid_examples)
  have a: "async_loop example_env example_cfg False [] = []" by simp
  show ?thesis
    using d l
    by (simp add: set_datetime_handler_cases async_loop_set_datetime [OF _ s] t a
          returns_def raises_def del: async_loop.simps)
qed

text \<open>
  C8, as stated, fails: a payload that is not UTF-8 resolves to no member of either
  enum, yet no warning is logged: the exception of \<^verbatim>\<open>decode\<close> leaves the handler, and
  the dispatch loop logs it as an error.
\<close>

theorem undecodable_payload_counterexample:
  "decode bad_utf8 = Inl UnicodeDecodeError \<and>
   OperationMode_parse_name example_env (Some bad_utf8) = None \<and>
   on_message_baseunit example_env operation_mode_st
     \<lparr>msg_topic = ''home/alarm/operation_mode/set'', msg_data = bad_utf8\<rparr> =
     ([], Some UnicodeDecodeError) \<and>
   subscribetopics_lookup example_env example_cfg ''home/alarm/operation_mode/set'' =
     Some operation_mode_st \<and>
   async_loop example_env example_cfg False
     [Delivered \<lparr>msg_topic = ''home/alarm/operation_mode/set'', msg_data = bad_utf8\<rparr>] =
     [Log ERROR ExceptionProcessingMessage] \<and>
   OnOff_parse_name example_env (Some bad_utf8) = None \<and>
   on_message_switch example_env switch_st
     \<lparr>msg_topic = ''home/sw1/set'', msg_data = bad_utf8\<rparr> = ([], Some UnicodeDecodeError)"
proof -
  have d: "decode bad_utf8 = Inl UnicodeDecodeError"
    by (simp add: decode_def bad_utf8_invalid)
  have l: "subscribetopics_lookup example_env example_cfg ''home/alarm/operation_mode/set'' =
     Some operation_mode_st"
    by (simp add: subscribetopics_lookup_def subscribetopics_def example_env_def example_cfg_def
          operation_mode_st_def sub_topic_def sub_topic3_def TOPIC_SET_def TOPIC_DATETIME_def
          TOPIC_CLEAR_STATUS_def truthy_def fmt_def)
  have h: "on_message_baseunit example_env operation_mode_st
     \<lparr>msg_topic = ''home/alarm/operation_mode/set'', msg_data = bad_utf8\<rparr> =
     ([], Some UnicodeDecodeError)"
    by (simp add: on_message_baseunit_def operation_mode_st_def example_env_def decode_data_cases
          bad_utf8_invalid raises_def)
  have a: "async_loop example_env example_cfg False
     [Delivered \<lparr>msg_topic = ''home/alarm/operation_mode/set'', msg_data = bad_utf8\<rparr>] =
     [Log ERROR ExceptionProcessingMessage]"
    using l h by (simp add: process_message_def call_on_message_def operation_mode_st_def)
  have p: "OperationMode_parse_name example_env (Some bad_utf8) = None"
    "OnOff_parse_name example_env (Some bad_utf8) = None"
    by (simp_all add: example_env_def bad_utf8_def)
  have s: "on_message_switch example_env switch_st
     \<lparr>msg_topic = ''home/sw1/set'', msg_data = bad_utf8\<rparr> = ([], Some UnicodeDecodeError)"
    by (simp add: on_message_switch_def decode_data_cases bad_utf8_invalid raises_def)
  from d l h a p s show ?thesis by simp
qed

text \<open>
  C8, amended. For a payload that is empty or well-formed UTF-8: if its name does not
  resolve against the operation-mode enum (for a switch topic, the on/off enum), the
  handler logs a warning and creates no task; if it resolves, the handler creates
  exactly one task, the driver call that sets the mode (for a switch, that sets the
  state of the subscription's switch number to the boolean of the member) and logs
  nothing. For a payload that is not UTF-8, the handler raises
  \<^verbatim>\<open>UnicodeDecodeError\<close> and has no effect.
\<close>

theorem inbound_enum_commands:
  "((msg_data message = [] \<or> utf8_valid (msg_data message)) \<longrightarrow>
      (let name = (if msg_data message = [] then None else Some (msg_data message)) in
       (st_args st = ArgsName (BaseUnit_PROP_OPERATION_MODE K) \<longrightarrow>
          on_message_baseunit K st message =
            (case OperationMode_parse_name K name of
               None \<Rightarrow> returns [Log WARNING CannotSetOperationMode]
             | Some operation_mode \<Rightarrow> returns [CreateTask (async_set_operation_mode operation_mode)])) \<and>
       on_message_switch K st message =
         (case OnOff_parse_name K name of
            None \<Rightarrow> returns [Log WARNING CannotSetSwitch]
          | Some state \<Rightarrow> returns [CreateTask (async_set_switch_state (st_args st) (state = On))]))) \<and>
   (\<not> utf8_valid (msg_data message) \<longrightarrow>
      (st_args st = ArgsName (BaseUnit_PROP_OPERATION_MODE K) \<longrightarrow>
         on_message_baseunit K st message = raises UnicodeDecodeError) \<and>
      on_message_switch K st message = raises UnicodeDecodeError)"
proof (intro conjI impI)
  assume v: "msg_data message = [] \<or> utf8_valid (msg_data message)"
  have on: "(OnOff_value state \<noteq> 0) = (state = On)" for state
    by (cases state) (simp_all add: OnOff_value_def)
  from v show "let name = (if msg_data message = [] then None else Some (msg_data message)) in
       (st_args st = ArgsName (BaseUnit_PROP_OPERATION_MODE K) \<longrightarrow>
          on_message_baseunit K st message =
            (case OperationMode_parse_name K name of
               None \<Rightarrow> returns [Log WARNING CannotSetOperationMode]
             | Some operation_mode \<Rightarrow> returns [CreateTask (async_set_operation_mode operation_mode)])) \<and>
       on_message_switch K st message =
         (case OnOff_parse_name K name of
            None \<Rightarrow> returns [Log WARNING CannotSetSwitch]
          | Some state \<Rightarrow> returns [CreateTask (async_set_switch_state (st_args st) (state = On))])"
    by (auto simp: on_message_baseunit_def on_message_switch_def decode_data_cases Let_def on
             split: option.splits)
next
  assume n: "\<not> utf8_valid (msg_data message)"
  then have ne: "msg_data message \<noteq> []" by auto
  { assume "st_args st = ArgsName (BaseUnit_PROP_OPERATION_MODE K)"
    with n ne show "on_message_baseunit K st message = raises UnicodeDecodeError"
      by (simp add: on_message_baseunit_def decode_data_cases) }
  from n ne show "on_message_switch K st message = raises UnicodeDecodeError"
    by (simp add: on_message_switch_def decode_data_cases)
qed

lemma utf8_valid_names: "utf8_valid ''Away''" "utf8_valid ''maybe''" "utf8_valid ''On''"
  by code_simp+

theorem inbound_enum_commands_witness:
  "on_message_baseunit example_env operation_mode_st (command_message ''Away'') =
     returns [CreateTask (async_set_operation_mode (OperationMode 2))] \<and>
   on_message_baseunit example_env operation_mode_st (command_message ''maybe'') =
     returns [Log WARNING CannotSetOperationMode] \<and>
   on_message_baseunit example_env operation_mode_st (command_message []) =
     returns [Log WARNING CannotSetOperationMode] \<and>
   on_message_switch example_env switch_st (command_message ''On'') =
     returns [CreateTask (async_set_switch_state (ArgsSwitch (SwitchNumber 1)) True)] \<and>
   on_message_switch example_env switch_st (command_message ''maybe'') =
     returns [Log WARNING CannotSetSwitch] \<and>
   \<not> utf8_valid (msg_data (command_message bad_utf8)) \<and>
   on_message_baseunit example_env operation_mode_st (command_message bad_utf8) =
     raises UnicodeDecodeError \<and>
   on_message_switch example_env switch_st (command_message bad_utf8) = raises UnicodeDecodeError"
proof -
  have a: "st_args operation_mode_st = ArgsName (BaseUnit_PROP_OPERATION_MODE example_env)"
    by (simp add: operation_mode_st_def example_env_def)
  have v: "msg_data (command_message ''Away'') = [] \<or> utf8_valid (msg_data (command_message ''Away''))"
    "msg_data (command_message ''maybe'') = [] \<or> utf8_valid (msg_data (command_message ''maybe''))"
    "msg_data (command_message []) = [] \<or> utf8_valid (msg_data (command_message []))"
    "msg_data (command_message ''On'') = [] \<or> utf8_valid (msg_data (command_message ''On''))"
    by (simp_all add: command_message_def utf8_valid_names)
  have u: "\<not> utf8_valid (msg_data (command_message bad_utf8))"
    by (simp add: command_message_def bad_utf8_invalid)
  note w = inbound_enum_commands [of _ _ example_env, THEN conjunct1, THEN mp, unfolded Let_def]
  note x = inbound_enum_commands [of _ _ example_env, THEN conjunct2, THEN mp]
  have "on_message_baseunit example_env operation_mode_st (command_message ''Away'') =
     returns [CreateTask (async_set_operation_mode (OperationMode 2))]"
    using w [OF v(1), of operation_mode_st, THEN conjunct1, THEN mp, OF a]
    by (simp add: command_message_def example_env_def)
  moreover have "on_message_baseunit example_env operation_mode_st (command_message ''maybe'') =
     returns [Log WARNING CannotSetOperationMode]"
    using w [OF v(2), of operation_mode_st, THEN conjunct1, THEN mp, OF a]
    by (simp add: command_message_def example_env_def)
  moreover have "on_message_baseunit example_env operation_mode_st (command_message []) =
     returns [Log WARNING CannotSetOperationMode]"
    using w [OF v(3), of operation_mode_st, THEN conjunct1, THEN mp, OF a]
    by (simp add: command_message_def example_env_def)
  moreover have "on_message_switch example_env switch_st (command_message ''On'') =
     returns [CreateTask (async_set_switch_state (ArgsSwitch (SwitchNumber 1)) True)]"
    using w [OF v(4), of switch_st, THEN conjunct2]
    by (simp add: command_message_def example_env_def switch_st_def)
  moreover have "on_message_switch example_env switch_st (command_message ''maybe'') =
     returns [Log WARNING CannotSetSwitch]"
    using w [OF v(2), of switch_st, THEN conjunct2]
    by (simp add: command_message_def example_env_def)
  moreover have "on_message_baseunit example_env operation_mode_st (command_message bad_utf8) =
     raises UnicodeDecodeError"
    using x [OF u, of operation_mode_st, THEN conjunct1, THEN mp, OF a] .
  moreover have "on_message_switch example_env switch_st (command_message bad_utf8) =
     raises UnicodeDecodeError"
    using x [OF u, of switch_st, THEN conjunct2] .
  ultimately show ?thesis using u by simp
qed

end
